theory Spec2Isabelle
  imports Complex_Main "HOL-Library.Word"
begin

text \<open>
  A model of the instrumentation layer of the agent mesh (\<^verbatim>\<open>phase4/src/shared\<close>): the
  telemetry singleton and its traced operations (\<^verbatim>\<open>telemetry.py\<close>), the structured logger
  (\<^verbatim>\<open>logging.py\<close>) and the instrumented agent (\<^verbatim>\<open>instrumented_agent.py\<close>). Every
  function takes the state of the process and returns the new state together with its
  outcome, a value or the exception raised.
\<close>

section \<open>Python values, exceptions and outcomes\<close>

text \<open>
  An exception object is kept as its class name, whether the class derives from
  \<^verbatim>\<open>Exception\<close> (what a clause \<^verbatim>\<open>except Exception\<close> catches; \<^verbatim>\<open>KeyboardInterrupt\<close>,
  \<^verbatim>\<open>SystemExit\<close> and \<^verbatim>\<open>GeneratorExit\<close> do not), and the text \<^verbatim>\<open>str(e)\<close>.
\<close>

datatype pyexc = PyExc (exc_class: string) (is_Exception: bool) (message: string)

definition ValueError :: "string \<Rightarrow> pyexc" where
  "ValueError m = PyExc ''ValueError'' True m"

definition TypeError :: "string \<Rightarrow> pyexc" where
  "TypeError m = PyExc ''TypeError'' True m"

text \<open>
  The dynamically typed values that travel through dictionaries (\<^verbatim>\<open>Dict[str, Any]\<close>).
  \<open>PObject\<close> is an instance of a user class: its \<^verbatim>\<open>__dict__\<close> when it has one, and
  the outcome of \<^verbatim>\<open>model_dump()\<close> when it has that method. The built-in values have
  neither attribute. Floats are read as real numbers.
\<close>

datatype pyval =
    PNone
  | PBool bool
  | PInt int
  | PFloat real
  | PStr string
  | PDict "string \<Rightarrow> pyval option"
  | PObject (inst_dict: "(string \<Rightarrow> pyval option) option")
            (model_dump: "(pyexc + pyval) option")

type_synonym pydict = "string \<Rightarrow> pyval option"

text \<open>Truth value of an object in a condition (\<^verbatim>\<open>if x:\<close>).\<close>

fun truthy :: "pyval \<Rightarrow> bool" where
  "truthy PNone = False"
| "truthy (PBool b) = b"
| "truthy (PInt i) = (i \<noteq> 0)"
| "truthy (PFloat r) = (r \<noteq> 0)"
| "truthy (PStr s) = (s \<noteq> [])"
| "truthy (PDict d) = (d \<noteq> Map.empty)"
| "truthy (PObject d m) = True"

section \<open>Configuration and the telemetry object\<close>

datatype AgentName = INTAKE | RISK | DECISION | ORCHESTRATOR

fun agent_value :: "AgentName \<Rightarrow> string" where
  "agent_value INTAKE = ''agent-intake''"
| "agent_value RISK = ''agent-risk''"
| "agent_value DECISION = ''agent-decision''"
| "agent_value ORCHESTRATOR = ''orchestrator''"

record TelemetryConfig =
  service_name :: string
  service_version :: string
  environment :: string
  enable_console_export :: bool
  enable_otlp_export :: bool
  otlp_endpoint :: string
  sample_rate :: real
  metrics_export_interval_ms :: int

type_synonym metric_attrs = "(string \<times> string) list"

text \<open>
  The attributes of an initialised \<^verbatim>\<open>AgentTelemetry\<close>. An instrument is kept as what was
  recorded on it: the up-down counter \<open>active_operations\<close> as the sum of its \<^verbatim>\<open>add\<close>
  calls, a counter or histogram as the list of its recordings with their attributes.
\<close>

record telemetry =
  agent_name :: AgentName
  config :: TelemetryConfig
  resource :: "(string \<times> string) list"
  latency_histogram :: "(real \<times> metric_attrs) list"
  token_counter :: "(int \<times> metric_attrs) list"
  request_counter :: "(int \<times> metric_attrs) list"
  error_counter :: "(int \<times> metric_attrs) list"
  active_operations :: int

section \<open>Spans and the state of the process\<close>

datatype SpanKind = INTERNAL | SERVER | CLIENT | PRODUCER | CONSUMER

datatype Status = StatusUnset | StatusOk | StatusError string

record span_context =
  trace_id :: "128 word"
  span_id :: "64 word"
  trace_flags :: "8 word"

definition is_valid :: "span_context \<Rightarrow> bool" where
  "is_valid c = (trace_id c \<noteq> 0 \<and> span_id c \<noteq> 0)"

text \<open>A \<^verbatim>\<open>Context\<close> as the propagator returns it: the parent span context, if any.\<close>

type_synonym parent_context = "span_context option"

text \<open>
  A span object. \<open>status\<close> is the status last passed to \<^verbatim>\<open>set_status\<close>, \<open>events\<close> the
  exceptions passed to \<^verbatim>\<open>record_exception\<close>, in order, and \<open>attributes\<close> the attributes
  given at creation and through \<^verbatim>\<open>set_attributes\<close>.
\<close>

record span =
  span_name :: string
  kind :: SpanKind
  attributes :: pydict
  sctx :: span_context
  parent_id :: "64 word option"
  status :: Status
  events :: "pyexc list"
  ended :: bool

text \<open>
  The state the code reads and changes. \<open>clock\<close> holds the readings that the next calls
  of \<^verbatim>\<open>time.time()\<close> return, \<open>new_trace_ids\<close> and \<open>new_span_ids\<close> the identifiers the
  tracer draws next. Span objects and dictionary objects live in stores indexed by
  allocation number, so that a reference can be shared and mutated in place.
  \<open>span_exit\<close> is what the tracing library itself does to a span when the \<^verbatim>\<open>with\<close>
  statement that opened it is left, normally (\<open>None\<close>) or by an exception.
\<close>

record world =
  tel :: telemetry
  clock :: "nat \<Rightarrow> real"
  float_str :: "real \<Rightarrow> string"
  new_trace_ids :: "nat \<Rightarrow> 128 word"
  new_span_ids :: "nat \<Rightarrow> 64 word"
  spans :: "nat \<Rightarrow> span"
  span_exit :: "pyexc option \<Rightarrow> span \<Rightarrow> span"
  span_count :: nat
  current_span :: "nat option"
  dicts :: "nat \<Rightarrow> pydict"
  dict_count :: nat
  operation_starts :: "string \<Rightarrow> real option"
  log_output :: "string list"

type_synonym 'a action = "world \<Rightarrow> (pyexc + 'a) \<times> world"

text \<open>Sequencing of two statements: an exception raised by the first skips the second.\<close>

definition then_do :: "'a action \<Rightarrow> ('a \<Rightarrow> 'b action) \<Rightarrow> 'b action" where
  "then_do m f w = (case m w of (Inl e, w') \<Rightarrow> (Inl e, w') | (Inr x, w') \<Rightarrow> f x w')"

definition time_time :: "world \<Rightarrow> real \<times> world" where
  "time_time w = (clock w 0, w\<lparr>clock := (\<lambda>n. clock w (Suc n))\<rparr>)"

subsection \<open>Instruments, tracer and spans\<close>

text \<open>
  Modelled from the spec: the OpenTelemetry instruments, tracer and span objects are
  third-party code that is not part of the repository. Following sections 3 and 4.1 of
  the specification, recording on an instrument is additive and never fails, a new span
  is the child of the given parent context, else of the span that is current, else a
  root with a fresh trace identifier, and a span keeps the status, events and
  attributes that were set on it. What the library does to a span on its own when the
  span is closed is not fixed by the specification and stays a parameter of the state.
\<close>

definition active_operations_add :: "int \<Rightarrow> world \<Rightarrow> world" where
  "active_operations_add n w = w\<lparr>tel := (tel w)\<lparr>active_operations := active_operations (tel w) + n\<rparr>\<rparr>"

definition error_counter_add :: "int \<Rightarrow> metric_attrs \<Rightarrow> world \<Rightarrow> world" where
  "error_counter_add n a w = w\<lparr>tel := (tel w)\<lparr>error_counter := error_counter (tel w) @ [(n, a)]\<rparr>\<rparr>"

definition request_counter_add :: "int \<Rightarrow> metric_attrs \<Rightarrow> world \<Rightarrow> world" where
  "request_counter_add n a w = w\<lparr>tel := (tel w)\<lparr>request_counter := request_counter (tel w) @ [(n, a)]\<rparr>\<rparr>"

definition latency_histogram_record :: "real \<Rightarrow> metric_attrs \<Rightarrow> world \<Rightarrow> world" where
  "latency_histogram_record v a w =
     w\<lparr>tel := (tel w)\<lparr>latency_histogram := latency_histogram (tel w) @ [(v, a)]\<rparr>\<rparr>"

definition set_status :: "nat \<Rightarrow> Status \<Rightarrow> world \<Rightarrow> world" where
  "set_status sp st w = w\<lparr>spans := (spans w)(sp := (spans w sp)\<lparr>status := st\<rparr>)\<rparr>"

definition record_exception :: "nat \<Rightarrow> pyexc \<Rightarrow> world \<Rightarrow> world" where
  "record_exception sp e w = w\<lparr>spans := (spans w)(sp := (spans w sp)\<lparr>events := events (spans w sp) @ [e]\<rparr>)\<rparr>"

definition set_attributes :: "nat \<Rightarrow> pydict \<Rightarrow> world \<Rightarrow> world" where
  "set_attributes sp a w =
     w\<lparr>spans := (spans w)(sp := (spans w sp)\<lparr>attributes := attributes (spans w sp) ++ a\<rparr>)\<rparr>"

text \<open>\<^verbatim>\<open>trace.get_current_span().set_attributes(a)\<close>: nothing is recorded when no span is current.\<close>

definition current_span_set_attributes :: "pydict \<Rightarrow> world \<Rightarrow> world" where
  "current_span_set_attributes a w =
     (case current_span w of None \<Rightarrow> w | Some sp \<Rightarrow> set_attributes sp a w)"

definition current_span_context :: "world \<Rightarrow> parent_context" where
  "current_span_context w =
     (case current_span w of None \<Rightarrow> None | Some sp \<Rightarrow> Some (sctx (spans w sp)))"

text \<open>
  Entering \<^verbatim>\<open>with tracer.start_as_current_span(...) as span\<close>: the result is the new span,
  the span that was current before (restored on exit), and the new state.
\<close>

definition start_as_current_span ::
  "string \<Rightarrow> SpanKind \<Rightarrow> pydict option \<Rightarrow> parent_context option \<Rightarrow> world \<Rightarrow> nat \<times> nat option \<times> world" where
  "start_as_current_span nm k attrs cx w =
     (let parent = (case cx of Some given \<Rightarrow> given | None \<Rightarrow> current_span_context w);
          parent = (case parent of None \<Rightarrow> None | Some c \<Rightarrow> if is_valid c then Some c else None);
          sp = span_count w;
          w1 = (case parent of
                  Some c \<Rightarrow> w
                | None \<Rightarrow> w\<lparr>new_trace_ids := (\<lambda>n. new_trace_ids w (Suc n))\<rparr>);
          new = \<lparr>span_name = nm, kind = k,
                 attributes = (case attrs of None \<Rightarrow> Map.empty | Some a \<Rightarrow> a),
                 sctx = \<lparr>trace_id = (case parent of Some c \<Rightarrow> trace_id c | None \<Rightarrow> new_trace_ids w 0),
                         span_id = new_span_ids w 0,
                         trace_flags = (case parent of Some c \<Rightarrow> trace_flags c | None \<Rightarrow> 1)\<rparr>,
                 parent_id = (case parent of Some c \<Rightarrow> Some (span_id c) | None \<Rightarrow> None),
                 status = StatusUnset, events = [], ended = False\<rparr>
      in (sp, current_span w,
          w1\<lparr>new_span_ids := (\<lambda>n. new_span_ids w (Suc n)),
             spans := (spans w)(sp := new),
             span_count := Suc sp,
             current_span := Some sp\<rparr>))"

text \<open>
  Leaving \<^verbatim>\<open>with tracer.start_as_current_span(...)\<close>, normally or by the exception \<open>exc\<close>:
  the library finishes the span and the span that was current before is current again.
\<close>

definition end_span :: "nat \<Rightarrow> nat option \<Rightarrow> pyexc option \<Rightarrow> world \<Rightarrow> world" where
  "end_span sp saved exc w =
     w\<lparr>spans := (spans w)(sp := (span_exit w exc (spans w sp))\<lparr>ended := True\<rparr>),
       current_span := saved\<rparr>"

section \<open>AgentTelemetry.trace_operation\<close>

text \<open>
  The generator behind the context manager runs in two parts. \<open>trace_enter\<close> is the code
  up to \<^verbatim>\<open>yield span\<close>; it returns the start time, the span, the span to restore and the
  state in which the body of the \<^verbatim>\<open>with\<close> statement starts.
\<close>

definition trace_enter ::
  "string \<Rightarrow> SpanKind \<Rightarrow> pydict option \<Rightarrow> parent_context option \<Rightarrow> world
     \<Rightarrow> real \<times> nat \<times> nat option \<times> world" where
  "trace_enter operation_name k attrs cx w =
     (let w1 = active_operations_add 1 w;
          (start_time, w2) = time_time w1;
          (sp, saved, w3) = start_as_current_span operation_name k attrs cx w2
      in (start_time, sp, saved, w3))"

text \<open>
  \<open>trace_resume\<close> is the code of \<^verbatim>\<open>trace_operation\<close> after \<^verbatim>\<open>yield span\<close>, resumed with
  the outcome of the body: the \<^verbatim>\<open>try\<close> continues after a normal end,
  \<^verbatim>\<open>except Exception\<close> handles an exception of that class, and \<^verbatim>\<open>finally\<close> runs in every
  case.
\<close>

definition trace_resume ::
  "string \<Rightarrow> real \<Rightarrow> nat \<Rightarrow> (pyexc + 'a) \<Rightarrow> world \<Rightarrow> world" where
  "trace_resume operation_name start_time sp r w =
     (let w1 = (case r of
                  Inr v \<Rightarrow> set_status sp StatusOk w
                | Inl e \<Rightarrow>
                    if is_Exception e
                    then error_counter_add 1 [(''operation'', operation_name)]
                           (record_exception sp e (set_status sp (StatusError (message e)) w))
                    else w);
          (now, w2) = time_time w1;
          duration_ms = (now - start_time) * 1000;
          w3 = latency_histogram_record duration_ms
                 [(''operation'', operation_name), (''agent'', agent_value (agent_name (tel w2)))] w2;
          w4 = active_operations_add (- 1) w3
      in w4)"

text \<open>
  \<open>trace_exit\<close> is all that happens when the body has ended: the code above, then the
  \<^verbatim>\<open>with\<close> statement of the span is left, by the exception of the body if it raised one.
\<close>

definition trace_exit ::
  "string \<Rightarrow> real \<Rightarrow> nat \<Rightarrow> nat option \<Rightarrow> (pyexc + 'a) \<Rightarrow> world \<Rightarrow> world" where
  "trace_exit operation_name start_time sp saved r w =
     end_span sp saved (case r of Inl e \<Rightarrow> Some e | Inr v \<Rightarrow> None)
       (trace_resume operation_name start_time sp r w)"

text \<open>
  \<^verbatim>\<open>with self.trace_operation(...) as span: body\<close>. The outcome of the body is the outcome
  of the statement: a value is passed on, an exception leaves the statement as it is.
\<close>

definition trace_operation ::
  "string \<Rightarrow> SpanKind \<Rightarrow> pydict option \<Rightarrow> parent_context option \<Rightarrow> (nat \<Rightarrow> 'a action) \<Rightarrow> 'a action" where
  "trace_operation operation_name k attrs cx body w =
     (let (start_time, sp, saved, w1) = trace_enter operation_name k attrs cx w;
          (r, w2) = body sp w1
      in (r, trace_exit operation_name start_time sp saved r w2))"

section \<open>AgentTelemetry.record_request\<close>

definition record_request :: "bool \<Rightarrow> pyval \<Rightarrow> world \<Rightarrow> world" where
  "record_request ok app_id w =
     current_span_set_attributes [''application.id'' \<mapsto> app_id, ''request.success'' \<mapsto> PBool ok]
       (request_counter_add 1
          [(''success'', if ok then ''true'' else ''false''),
           (''agent'', agent_value (agent_name (tel w)))] w)"

section \<open>The singleton: AgentTelemetry.initialize and get_instance\<close>

text \<open>
  The object behind the class attribute \<^verbatim>\<open>_instance\<close>. \<open>Blank\<close> is an object on which
  \<^verbatim>\<open>__init__\<close> has not completed (\<^verbatim>\<open>_initialized\<close> still reads the class default
  \<^verbatim>\<open>False\<close>), with the agent name if that assignment was reached; \<open>Ready\<close> carries the
  attributes of an object whose \<^verbatim>\<open>_initialized\<close> is \<^verbatim>\<open>True\<close>. The class state is
  \<open>None\<close> while \<^verbatim>\<open>_instance\<close> is \<^verbatim>\<open>None\<close>.
\<close>

datatype telemetry_obj = Blank "AgentName option" | Ready telemetry

type_synonym class_state = "telemetry_obj option"

definition make_resource :: "AgentName \<Rightarrow> TelemetryConfig \<Rightarrow> (string \<times> string) list" where
  "make_resource nm cfg =
     [(''service.name'', service_name cfg @ ''-'' @ agent_value nm),
      (''service.version'', service_version cfg),
      (''deployment.environment'', environment cfg),
      (''agent.name'', agent_value nm)]"

text \<open>The attributes that \<^verbatim>\<open>__init__\<close> sets: every instrument is created empty.\<close>

definition new_telemetry :: "AgentName \<Rightarrow> TelemetryConfig \<Rightarrow> telemetry" where
  "new_telemetry nm c =
     \<lparr>agent_name = nm, config = c, resource = make_resource nm c,
      latency_histogram = [], token_counter = [], request_counter = [],
      error_counter = [], active_operations = 0\<rparr>"

text \<open>\<^verbatim>\<open>__new__\<close>: the object the call works on, stored in the class if there was none.\<close>

definition telemetry_new :: "class_state \<Rightarrow> telemetry_obj \<times> class_state" where
  "telemetry_new cls =
     (case cls of None \<Rightarrow> (Blank None, Some (Blank None)) | Some obj \<Rightarrow> (obj, Some obj))"

text \<open>
  \<^verbatim>\<open>__init__\<close> on the object of the class. \<open>from_env\<close> is the outcome of
  \<^verbatim>\<open>TelemetryConfig.from_env()\<close> in the environment of the process, which is read only
  when no configuration is given. The result is the exception raised, if any, and the
  object afterwards.
\<close>

definition telemetry_init ::
  "AgentName \<Rightarrow> TelemetryConfig option \<Rightarrow> (pyexc + TelemetryConfig) \<Rightarrow> telemetry_obj
     \<Rightarrow> pyexc option \<times> telemetry_obj" where
  "telemetry_init nm cfg from_env obj =
     (case obj of
        Ready t \<Rightarrow> (None, Ready t)
      | Blank old \<Rightarrow>
          (case (case cfg of Some c \<Rightarrow> Inr c | None \<Rightarrow> from_env) of
             Inl e \<Rightarrow> (Some e, Blank (Some nm))
           | Inr c \<Rightarrow> (None, Ready (new_telemetry nm c))))"

text \<open>\<^verbatim>\<open>initialize\<close> is \<^verbatim>\<open>cls(agent_name, config)\<close>: \<^verbatim>\<open>__new__\<close>, then \<^verbatim>\<open>__init__\<close> on its result.\<close>

definition initialize ::
  "AgentName \<Rightarrow> TelemetryConfig option \<Rightarrow> (pyexc + TelemetryConfig) \<Rightarrow> class_state
     \<Rightarrow> (pyexc + telemetry_obj) \<times> class_state" where
  "initialize nm cfg from_env cls =
     (let (obj, cls1) = telemetry_new cls;
          (raised, obj') = telemetry_init nm cfg from_env obj
      in (case raised of Some e \<Rightarrow> Inl e | None \<Rightarrow> Inr obj', Some obj'))"

definition get_instance :: "class_state \<Rightarrow> pyexc + telemetry_obj" where
  "get_instance cls =
     (case cls of
        None \<Rightarrow> Inl (PyExc ''RuntimeError'' True ''Telemetry not initialized. Call initialize() first.'')
      | Some obj \<Rightarrow> Inr obj)"

section \<open>Context propagation\<close>

text \<open>
  Modelled from the spec: the propagator (\<^verbatim>\<open>TraceContextTextMapPropagator\<close>) is third-party
  code that is not part of the repository. Section 4.2 of the specification fixes its
  contract: \<^verbatim>\<open>inject\<close> writes the active trace identity into the carrier in the text
  format version-traceid-spanid-flags of W3C trace context (lower-case hexadecimal fields
  of 2, 32, 16 and 2 digits under the key \<^verbatim>\<open>traceparent\<close>), and \<^verbatim>\<open>extract\<close> parses that
  format, giving no parent for an absent or malformed carrier. With no active span there
  is no identity to write.
\<close>

definition hex_digit :: "nat \<Rightarrow> char" where
  "hex_digit d = ''0123456789abcdef'' ! d"

fun hex_fixed :: "nat \<Rightarrow> nat \<Rightarrow> string" where
  "hex_fixed 0 n = []"
| "hex_fixed (Suc k) n = hex_fixed k (n div 16) @ [hex_digit (n mod 16)]"

fun index_of :: "'a \<Rightarrow> 'a list \<Rightarrow> nat option" where
  "index_of x [] = None"
| "index_of x (y # ys) = (if x = y then Some 0 else map_option Suc (index_of x ys))"

definition hex_value :: "char \<Rightarrow> nat option" where
  "hex_value c = index_of c ''0123456789abcdef''"

fun parse_hex :: "nat \<Rightarrow> string \<Rightarrow> nat option" where
  "parse_hex acc [] = Some acc"
| "parse_hex acc (c # cs) =
     (case hex_value c of None \<Rightarrow> None | Some d \<Rightarrow> parse_hex (16 * acc + d) cs)"

definition format_traceparent :: "span_context \<Rightarrow> string" where
  "format_traceparent c =
     ''00-'' @ hex_fixed 32 (unat (trace_id c)) @ ''-'' @ hex_fixed 16 (unat (span_id c))
       @ ''-'' @ hex_fixed 2 (unat (trace_flags c))"

definition parse_traceparent :: "string \<Rightarrow> parent_context" where
  "parse_traceparent s =
     (if length s = 55 \<and> s ! 2 = CHR ''-'' \<and> s ! 35 = CHR ''-'' \<and> s ! 52 = CHR ''-''
      then (case (parse_hex 0 (take 2 s), parse_hex 0 (take 32 (drop 3 s)),
                  parse_hex 0 (take 16 (drop 36 s)), parse_hex 0 (drop 53 s)) of
              (Some v, Some t, Some p, Some f) \<Rightarrow>
                if v = 255 \<or> t = 0 \<or> p = 0 then None
                else Some \<lparr>trace_id = of_nat t, span_id = of_nat p, trace_flags = of_nat f\<rparr>
            | _ \<Rightarrow> None)
      else None)"

definition dict_new :: "pydict \<Rightarrow> world \<Rightarrow> nat \<times> world" where
  "dict_new d w =
     (dict_count w, w\<lparr>dicts := (dicts w)(dict_count w := d), dict_count := Suc (dict_count w)\<rparr>)"

definition dict_setitem :: "nat \<Rightarrow> string \<Rightarrow> pyval \<Rightarrow> world \<Rightarrow> world" where
  "dict_setitem r k v w = w\<lparr>dicts := (dicts w)(r := (dicts w r)(k \<mapsto> v))\<rparr>"

text \<open>\<^verbatim>\<open>inject_context(carrier)\<close> changes the dictionary object \<open>carrier\<close> in place.\<close>

definition inject_context :: "nat \<Rightarrow> world \<Rightarrow> world" where
  "inject_context carrier w =
     (case current_span_context w of
        None \<Rightarrow> w
      | Some c \<Rightarrow>
          if is_valid c then dict_setitem carrier ''traceparent'' (PStr (format_traceparent c)) w
          else w)"

definition extract_context :: "pydict \<Rightarrow> parent_context" where
  "extract_context carrier =
     (case carrier ''traceparent'' of Some (PStr s) \<Rightarrow> parse_traceparent s | _ \<Rightarrow> None)"

text \<open>
  For stating what a carrier holds after \<^verbatim>\<open>inject_context\<close>: the entries that a call in
  the state \<open>w\<close> writes.
\<close>

definition carrier_entries :: "world \<Rightarrow> pydict" where
  "carrier_entries w =
     (case current_span_context w of
        None \<Rightarrow> Map.empty
      | Some c \<Rightarrow>
          if is_valid c then [''traceparent'' \<mapsto> PStr (format_traceparent c)] else Map.empty)"

section \<open>AgentLogger\<close>

text \<open>
  The bound logger of structlog behind \<^verbatim>\<open>self._logger\<close> is a parameter: for a level
  name, an event and the keyword fields, \<^verbatim>\<open>getattr(self._logger, level)(event, **kwargs)\<close>
  either raises or writes some lines (none when the level is filtered out).
\<close>

type_synonym log_sink = "string \<Rightarrow> string \<Rightarrow> pydict \<Rightarrow> pyexc + string list"

text \<open>
  Binding the arguments of a call \<^verbatim>\<open>f(a, ..., **kwargs)\<close>: a keyword whose name is a
  parameter that a positional argument has bound already raises \<^verbatim>\<open>TypeError\<close>.
\<close>

definition multiple_values :: "string \<Rightarrow> string list \<Rightarrow> pydict \<Rightarrow> pyexc option" where
  "multiple_values fn params kwargs =
     (case filter (\<lambda>p. kwargs p \<noteq> None) params of
        [] \<Rightarrow> None
      | p # ps \<Rightarrow>
          Some (TypeError (fn @ ''() got multiple values for argument ''
                             @ [CHR 0x27] @ p @ [CHR 0x27])))"

text \<open>A keyword given both explicitly and through \<^verbatim>\<open>**kwargs\<close> in one call.\<close>

definition repeated_keyword :: "string \<Rightarrow> string list \<Rightarrow> pydict \<Rightarrow> pyexc option" where
  "repeated_keyword fn keywords kwargs =
     (case filter (\<lambda>p. kwargs p \<noteq> None) keywords of
        [] \<Rightarrow> None
      | p # ps \<Rightarrow>
          Some (TypeError (fn @ ''() got multiple values for keyword argument ''
                             @ [CHR 0x27] @ p @ [CHR 0x27])))"

definition logger_log :: "log_sink \<Rightarrow> string \<Rightarrow> string \<Rightarrow> pydict \<Rightarrow> unit action" where
  "logger_log snk level event kwargs w =
     (case multiple_values ''AgentLogger._log'' [''self'', ''level'', ''event''] kwargs of
        Some e \<Rightarrow> (Inl e, w)
      | None \<Rightarrow>
          (case snk level event kwargs of
             Inl e \<Rightarrow> (Inl e, w)
           | Inr lines \<Rightarrow> (Inr (), w\<lparr>log_output := log_output w @ lines\<rparr>)))"

text \<open>
  The five level methods, each of the form
  \<^verbatim>\<open>def info(self, event, **kwargs): self._log("info", event, **kwargs)\<close>.
  They carry the prefix \<open>logger_\<close> here, since \<open>error\<close> is also a field of \<^verbatim>\<open>AgentResult\<close>.
\<close>

definition level_method :: "string \<Rightarrow> log_sink \<Rightarrow> string \<Rightarrow> pydict \<Rightarrow> unit action" where
  "level_method level snk event kwargs w =
     (case multiple_values (''AgentLogger.'' @ level) [''self'', ''event''] kwargs of
        Some e \<Rightarrow> (Inl e, w)
      | None \<Rightarrow> logger_log snk level event kwargs w)"

definition logger_debug :: "log_sink \<Rightarrow> string \<Rightarrow> pydict \<Rightarrow> unit action" where
  "logger_debug = level_method ''debug''"

definition logger_info :: "log_sink \<Rightarrow> string \<Rightarrow> pydict \<Rightarrow> unit action" where
  "logger_info = level_method ''info''"

definition logger_warning :: "log_sink \<Rightarrow> string \<Rightarrow> pydict \<Rightarrow> unit action" where
  "logger_warning = level_method ''warning''"

definition logger_error :: "log_sink \<Rightarrow> string \<Rightarrow> pydict \<Rightarrow> unit action" where
  "logger_error = level_method ''error''"

definition logger_exception :: "log_sink \<Rightarrow> string \<Rightarrow> pydict \<Rightarrow> unit action" where
  "logger_exception = level_method ''exception''"

definition operation_start :: "log_sink \<Rightarrow> string \<Rightarrow> pydict \<Rightarrow> unit action" where
  "operation_start snk operation cx w =
     (case multiple_values ''AgentLogger.operation_start'' [''self'', ''operation''] cx of
        Some e \<Rightarrow> (Inl e, w)
      | None \<Rightarrow>
          (let (t, w1) = time_time w;
               w2 = w1\<lparr>operation_starts := (operation_starts w1)(operation \<mapsto> t)\<rparr>
           in logger_info snk (''operation_start:'' @ operation) cx w2))"

text \<open>
  \<^verbatim>\<open>operation_end(self, operation, success=True, **context)\<close>. A keyword \<^verbatim>\<open>success\<close> binds
  to the parameter, so \<open>cx\<close>, the dictionary \<^verbatim>\<open>context\<close>, never holds that key.
\<close>

definition operation_end :: "log_sink \<Rightarrow> string \<Rightarrow> bool \<Rightarrow> pydict \<Rightarrow> unit action" where
  "operation_end snk operation ok cx w =
     (case multiple_values ''AgentLogger.operation_end'' [''self'', ''operation''] cx of
        Some e \<Rightarrow> (Inl e, w)
      | None \<Rightarrow>
          (let (duration_ms, w1) =
                 (case operation_starts w operation of
                    None \<Rightarrow> (PNone, w)
                  | Some t0 \<Rightarrow>
                      (let (now, w') = time_time w
                       in (PFloat ((now - t0) * 1000),
                           w'\<lparr>operation_starts := (operation_starts w')(operation := None)\<rparr>)))
           in (case repeated_keyword ''AgentLogger.info'' [''duration_ms''] cx of
                 Some e \<Rightarrow> (Inl e, w1)
               | None \<Rightarrow>
                   logger_info snk (''operation_end:'' @ operation)
                     (cx(''success'' \<mapsto> PBool ok, ''duration_ms'' \<mapsto> duration_ms)) w1)))"

section \<open>InstrumentedAgent\<close>

record AgentContext =
  application_id :: pyval
  request_id :: pyval
  trace_headers :: pydict
  metadata :: pydict

record AgentResult =
  success :: bool
  data :: pyval
  error :: "string option"
  latency_ms :: real
  tokens_used :: int

text \<open>
  An agent: its name, the bound logger of its \<^verbatim>\<open>AgentLogger\<close>, and the two abstract
  methods that a subclass supplies. Both may change the state and may raise.
\<close>

record agent =
  ag_name :: AgentName
  logger :: log_sink
  validate_input :: "pydict \<Rightarrow> bool action"
  execute_core :: "AgentContext \<Rightarrow> pydict \<Rightarrow> pyval action"

text \<open>
  \<^verbatim>\<open>_create_context\<close>. The default of \<^verbatim>\<open>dict.get\<close> is an argument, so both f-strings read
  the clock whether or not the key is present.
\<close>

definition create_context :: "pydict \<Rightarrow> world \<Rightarrow> AgentContext \<times> world" where
  "create_context input_data w =
     (let (t1, w1) = time_time w;
          app = (case input_data ''application_id'' of
                   Some v \<Rightarrow> v | None \<Rightarrow> PStr (''app-'' @ float_str w t1));
          (t2, w2) = time_time w1;
          req = (case input_data ''request_id'' of
                   Some v \<Rightarrow> v | None \<Rightarrow> PStr (''req-'' @ float_str w t2))
      in (\<lparr>application_id = app, request_id = req,
           trace_headers = Map.empty, metadata = Map.empty\<rparr>, w2))"

text \<open>\<^verbatim>\<open>_serialize_result\<close>: \<^verbatim>\<open>__dict__\<close> first, then \<^verbatim>\<open>model_dump()\<close>, else the wrapping.\<close>

fun serialize_result :: "pyval \<Rightarrow> pyexc + pyval" where
  "serialize_result (PObject (Some d) m) = Inr (PDict d)"
| "serialize_result (PObject None (Some r)) = r"
| "serialize_result v = Inr (PDict [''value'' \<mapsto> v])"

text \<open>\<^verbatim>\<open>try: body  except Exception as e: handler\<close>.\<close>

definition try_except :: "'a action \<Rightarrow> (pyexc \<Rightarrow> 'a action) \<Rightarrow> 'a action" where
  "try_except body handler w =
     (case body w of
        (Inl e, w') \<Rightarrow> if is_Exception e then handler e w' else (Inl e, w')
      | (Inr v, w') \<Rightarrow> (Inr v, w'))"

text \<open>The body of \<^verbatim>\<open>with self.telemetry.trace_operation("validate_input")\<close>.\<close>

definition validate_step :: "agent \<Rightarrow> pydict \<Rightarrow> unit action" where
  "validate_step ag input_data =
     then_do (validate_input ag input_data)
       (\<lambda>valid w. if \<not> valid then (Inl (ValueError ''Input validation failed''), w)
                  else (Inr (), w))"

text \<open>The \<^verbatim>\<open>try\<close> block of \<^verbatim>\<open>execute\<close>.\<close>

definition execute_try :: "agent \<Rightarrow> pydict \<Rightarrow> AgentContext \<Rightarrow> real \<Rightarrow> AgentResult action" where
  "execute_try ag input_data cx start_time =
     then_do (trace_operation ''validate_input'' INTERNAL None None
                (\<lambda>span. validate_step ag input_data))
       (\<lambda>u. then_do (execute_core ag cx input_data)
          (\<lambda>result_data w.
             (let (now, w1) = time_time w;
                  latency = (now - start_time) * 1000
              in then_do (operation_end (logger ag) ''execute'' True
                            [''application_id'' \<mapsto> application_id cx])
                   (\<lambda>u w2.
                      (let w3 = record_request True (application_id cx) w2
                       in (case serialize_result result_data of
                             Inl e \<Rightarrow> (Inl e, w3)
                           | Inr d \<Rightarrow>
                               (Inr \<lparr>success = True, data = d, error = None,
                                     latency_ms = latency, tokens_used = 0\<rparr>, w3))))
                   w1)))"

text \<open>The handler \<^verbatim>\<open>except Exception as e\<close> of \<^verbatim>\<open>execute\<close>.\<close>

definition execute_except :: "agent \<Rightarrow> AgentContext \<Rightarrow> real \<Rightarrow> pyexc \<Rightarrow> AgentResult action" where
  "execute_except ag cx start_time e =
     then_do (logger_error (logger ag) ''execute_failed''
                [''application_id'' \<mapsto> application_id cx, ''error'' \<mapsto> PStr (message e)])
       (\<lambda>u w.
          (let w1 = record_request False (application_id cx) w;
               (now, w2) = time_time w1
           in (Inr \<lparr>success = False, data = PNone, error = Some (message e),
                    latency_ms = (now - start_time) * 1000, tokens_used = 0\<rparr>, w2)))"

definition execute :: "agent \<Rightarrow> pydict \<Rightarrow> AgentContext option \<Rightarrow> AgentResult action" where
  "execute ag input_data ctx w =
     (let (cx, w1) = (case ctx of None \<Rightarrow> create_context input_data w | Some c \<Rightarrow> (c, w));
          (start_time, w2) = time_time w1
      in trace_operation (agent_value (ag_name ag) @ ''.execute'') INTERNAL
           (Some [''application.id'' \<mapsto> application_id cx, ''request.id'' \<mapsto> request_id cx])
           None
           (\<lambda>span. then_do (operation_start (logger ag) ''execute''
                              [''application_id'' \<mapsto> application_id cx])
                     (\<lambda>u. try_except (execute_try ag input_data cx start_time)
                                      (execute_except ag cx start_time)))
           w2)"

section \<open>KafkaTracingMiddleware.prepare_headers and prepare_output_message\<close>

text \<open>
  \<open>extra_headers\<close> is a reference to the caller's dictionary, or \<open>None\<close>. The result is
  the reference of the dictionary that is returned.
\<close>

definition prepare_headers :: "pyval \<Rightarrow> nat option \<Rightarrow> world \<Rightarrow> nat \<times> world" where
  "prepare_headers app_id extra_headers w =
     (let (headers, w1) =
            (case extra_headers of
               None \<Rightarrow> dict_new Map.empty w
             | Some r \<Rightarrow>
                 if dicts w r \<noteq> Map.empty then dict_new (dicts w r) w
                 else dict_new Map.empty w);
          w2 = inject_context headers w1;
          w3 = (if truthy app_id then dict_setitem headers ''x-application-id'' app_id w2 else w2)
      in (headers, w3))"

definition prepare_output_message ::
  "agent \<Rightarrow> AgentResult \<Rightarrow> AgentContext \<Rightarrow> world \<Rightarrow> (pydict \<times> nat) \<times> world" where
  "prepare_output_message ag result cx w =
     (let (headers, w1) = prepare_headers (application_id cx) None w;
          val = [''application_id'' \<mapsto> application_id cx,
                 ''request_id'' \<mapsto> request_id cx,
                 ''agent'' \<mapsto> PStr (agent_value (ag_name ag)),
                 ''success'' \<mapsto> PBool (success result),
                 ''data'' \<mapsto> data result,
                 ''error'' \<mapsto> (case error result of None \<Rightarrow> PNone | Some m \<Rightarrow> PStr m),
                 ''latency_ms'' \<mapsto> PFloat (latency_ms result)]
      in ((val, headers), w1))"

section \<open>Sequences of traced operations\<close>

text \<open>
  A caller that runs traced operations one after the other, each to its end, and goes on
  whatever the outcome (value or exception) of each was.
\<close>

record 'a traced =
  op_name :: string
  op_kind :: SpanKind
  op_attributes :: "pydict option"
  op_context :: "parent_context option"
  op_body :: "nat \<Rightarrow> 'a action"

fun run_operations :: "'a traced list \<Rightarrow> world \<Rightarrow> (pyexc + 'a) list \<times> world" where
  "run_operations [] w = ([], w)"
| "run_operations (t # ts) w =
     (let (r, w1) = trace_operation (op_name t) (op_kind t) (op_attributes t) (op_context t)
                      (op_body t) w;
          (rs, w2) = run_operations ts w1
      in (r # rs, w2))"

section \<open>Concrete states and agents\<close>

text \<open>The defaults of the dataclass \<^verbatim>\<open>TelemetryConfig\<close>.\<close>

definition default_config :: TelemetryConfig where
  "default_config =
     \<lparr>service_name = ''agent-mesh-kafka'', service_version = ''1.0.0'',
      environment = ''development'', enable_console_export = True,
      enable_otlp_export = False, otlp_endpoint = ''http://localhost:4317'',
      sample_rate = 1, metrics_export_interval_ms = 60000\<rparr>"

definition blank_span :: span where
  "blank_span =
     \<lparr>span_name = [], kind = INTERNAL, attributes = Map.empty,
      sctx = \<lparr>trace_id = 0, span_id = 0, trace_flags = 0\<rparr>,
      parent_id = None, status = StatusUnset, events = [], ended = False\<rparr>"

text \<open>
  A process right after \<^verbatim>\<open>AgentTelemetry.initialize(AgentName.RISK, TelemetryConfig())\<close>:
  nothing recorded, no span current, no dictionary allocated. The clock reads 0, 1, 2, ...
  seconds and the tracer draws the identifiers 1, 2, 3, ... The tracing library is one
  that, when an exception leaves the \<^verbatim>\<open>with\<close> statement of a span, records it on the span
  once more and sets the status to error with the class name and the text.
\<close>

definition idle_world :: world where
  "idle_world =
     \<lparr>tel = new_telemetry RISK default_config,
      clock = (\<lambda>n. real n),
      float_str = (\<lambda>r. ''0.0''),
      new_trace_ids = (\<lambda>n. of_nat (Suc n)),
      new_span_ids = (\<lambda>n. of_nat (Suc n)),
      spans = (\<lambda>i. blank_span),
      span_exit = (\<lambda>exc s. case exc of
                     None \<Rightarrow> s
                   | Some e \<Rightarrow> s\<lparr>status := StatusError (exc_class e @ '': '' @ message e),
                                    events := events s @ [e]\<rparr>),
      span_count = 0,
      current_span = None,
      dicts = (\<lambda>r. Map.empty),
      dict_count = 0,
      operation_starts = Map.empty,
      log_output = []\<rparr>"

text \<open>A bound logger that accepts every call and writes one line for it.\<close>

definition quiet_sink :: log_sink where
  "quiet_sink level event kwargs = Inr [level @ '' '' @ event]"

text \<open>A bound logger whose \<^verbatim>\<open>error\<close> method raises (the output stream is closed).\<close>

definition broken_sink :: log_sink where
  "broken_sink level event kwargs =
     (if level = ''error'' then Inl (ValueError ''I/O operation on closed file'')
      else Inr [level @ '' '' @ event])"

text \<open>
  An agent of the given name whose validator always returns \<^verbatim>\<open>True\<close> and whose core
  logic raises an exception with the given text.
\<close>

definition raising_agent :: "AgentName \<Rightarrow> log_sink \<Rightarrow> pyexc \<Rightarrow> agent" where
  "raising_agent nm snk e =
     \<lparr>ag_name = nm, logger = snk,
      validate_input = (\<lambda>input_data w. (Inr True, w)),
      execute_core = (\<lambda>cx input_data w. (Inl e, w))\<rparr>"

text \<open>An agent whose validator returns the given answer and whose core logic returns the given payload.\<close>

definition returning_agent :: "AgentName \<Rightarrow> log_sink \<Rightarrow> bool \<Rightarrow> pyval \<Rightarrow> agent" where
  "returning_agent nm snk valid payload =
     \<lparr>ag_name = nm, logger = snk,
      validate_input = (\<lambda>input_data w. (Inr valid, w)),
      execute_core = (\<lambda>cx input_data w. (Inr payload, w))\<rparr>"

text \<open>A body that reports the number of operations in flight that it observes.\<close>

definition observing_body :: "nat \<Rightarrow> int action" where
  "observing_body sp w = (Inr (active_operations (tel w)), w)"

text \<open>A body that raises the given exception at once.\<close>

definition raising_body :: "pyexc \<Rightarrow> nat \<Rightarrow> 'a action" where
  "raising_body e sp w = (Inl e, w)"

text \<open>
  Four traced operations: one ends normally, one raises an exception, one is interrupted,
  and one runs a traced operation of its own. The first and the inner one report the
  number of operations in flight.
\<close>

definition mixed_operations :: "int traced list" where
  "mixed_operations =
     [\<lparr>op_name = ''first'', op_kind = INTERNAL, op_attributes = None, op_context = None,
       op_body = observing_body\<rparr>,
      \<lparr>op_name = ''second'', op_kind = CONSUMER, op_attributes = None, op_context = None,
       op_body = raising_body (ValueError ''boom'')\<rparr>,
      \<lparr>op_name = ''third'', op_kind = INTERNAL, op_attributes = None, op_context = None,
       op_body = raising_body (PyExc ''KeyboardInterrupt'' False [])\<rparr>,
      \<lparr>op_name = ''fourth'', op_kind = INTERNAL, op_attributes = None, op_context = None,
       op_body = (\<lambda>sp. trace_operation ''inner'' CLIENT None None observing_body)\<rparr>]"

text \<open>The state inside the first traced operation of a fresh process: a consumer span is current.\<close>

definition tracing_world :: world where
  "tracing_world = snd (snd (snd (trace_enter ''kafka.consume.loans'' CONSUMER None None idle_world)))"

text \<open>
  The same state after the caller has built the dictionary \<^verbatim>\<open>{"content-type": "json"}\<close>,
  which gets the reference 0.
\<close>

definition headers_world :: world where
  "headers_world = snd (dict_new [''content-type'' \<mapsto> PStr ''json''] tracing_world)"

text \<open>A result envelope and an execution context with a given application id.\<close>

definition sample_result :: AgentResult where
  "sample_result = \<lparr>success = True, data = PDict [''risk_category'' \<mapsto> PStr ''LOW''],
                     error = None, latency_ms = 12, tokens_used = 0\<rparr>"

definition sample_context :: "string \<Rightarrow> AgentContext" where
  "sample_context app = \<lparr>application_id = PStr app, request_id = PStr ''R1'',
                          trace_headers = Map.empty, metadata = Map.empty\<rparr>"

section \<open>How the wrapper changes the telemetry object\<close>

lemma trace_operation_eq:
  assumes "trace_enter nm k a c w = (t0, sp, saved, w1)" "body sp w1 = (r, w2)"
  shows "trace_operation nm k a c body w = (r, trace_exit nm t0 sp saved r w2)"
  using assms by (simp add: trace_operation_def)

lemma tel_create_context: "tel (snd (create_context inp w)) = tel w"
  by (simp add: create_context_def time_time_def Let_def)

lemma tel_trace_enter:
  assumes "trace_enter nm k a c w = (t0, sp, saved, w1)"
  shows "tel w1 = (tel w)\<lparr>active_operations := active_operations (tel w) + 1\<rparr>"
  using assms
  by (auto simp: trace_enter_def active_operations_add_def time_time_def
        start_as_current_span_def Let_def split: option.splits)

lemma tel_trace_exit_value:
  "tel (trace_exit nm t0 sp saved (Inr v) w) =
     (tel w)\<lparr>latency_histogram := latency_histogram (tel w) @
                [((clock w 0 - t0) * 1000,
                  [(''operation'', nm), (''agent'', agent_value (agent_name (tel w)))])],
             active_operations := active_operations (tel w) - 1\<rparr>"
  by (simp add: trace_exit_def trace_resume_def active_operations_add_def time_time_def end_span_def
        latency_histogram_record_def set_status_def Let_def)

lemma tel_trace_exit_Exception:
  assumes "is_Exception e"
  shows "tel (trace_exit nm t0 sp saved (Inl e) w) =
     (tel w)\<lparr>error_counter := error_counter (tel w) @ [(1, [(''operation'', nm)])],
             latency_histogram := latency_histogram (tel w) @
                [((clock w 0 - t0) * 1000,
                  [(''operation'', nm), (''agent'', agent_value (agent_name (tel w)))])],
             active_operations := active_operations (tel w) - 1\<rparr>"
  using assms
  by (simp add: trace_exit_def trace_resume_def active_operations_add_def time_time_def end_span_def
        latency_histogram_record_def set_status_def error_counter_add_def record_exception_def
        Let_def)

lemma tel_level_method:
  assumes "level_method lvl snk ev kw w = (r, w')"
  shows "tel w' = tel w"
  using assms by (auto simp: level_method_def logger_log_def split: option.splits sum.splits)

lemma tel_operation_start:
  assumes "operation_start snk operation cx w = (r, w')"
  shows "tel w' = tel w"
  using assms
  by (auto simp: operation_start_def logger_info_def time_time_def
        split: option.splits dest!: tel_level_method)

lemma tel_operation_end:
  assumes "operation_end snk operation ok cx w = (r, w')"
  shows "tel w' = tel w"
  using assms
  by (auto simp: operation_end_def logger_info_def time_time_def repeated_keyword_def Let_def
        split: option.splits list.splits dest!: tel_level_method)

lemma tel_record_request:
  "tel (record_request ok a w) =
     (tel w)\<lparr>request_counter := request_counter (tel w) @
               [(1, [(''success'', if ok then ''true'' else ''false''),
                     (''agent'', agent_value (agent_name (tel w)))])]\<rparr>"
  by (simp add: record_request_def request_counter_add_def current_span_set_attributes_def
        set_attributes_def split: option.splits)

lemma tel_execute_except:
  assumes "execute_except ag cx st e w = (Inr res, w')"
  shows "tel w' = (tel w)\<lparr>request_counter := request_counter (tel w) @
               [(1, [(''success'', ''false''), (''agent'', agent_value (agent_name (tel w)))])]\<rparr>"
proof -
  obtain r1 w1 where l: "level_method ''error'' (logger ag) ''execute_failed''
      [''application_id'' \<mapsto> application_id cx, ''error'' \<mapsto> PStr (message e)] w = (r1, w1)"
    by fastforce
  have t1: "tel w1 = tel w"
    by (rule tel_level_method [OF l])
  show ?thesis
    using assms l t1
    by (auto simp: execute_except_def logger_error_def then_do_def time_time_def
          tel_record_request Let_def split: sum.splits)
qed

section \<open>The in-flight gauge\<close>

lemma trace_enter_gauge:
  assumes "trace_enter nm k a c w = (t0, sp, saved, w1)"
  shows "active_operations (tel w1) = active_operations (tel w) + 1"
  by (simp add: tel_trace_enter [OF assms])

lemma trace_exit_gauge:
  "active_operations (tel (trace_exit nm t0 sp saved r w)) = active_operations (tel w) - 1"
  by (simp add: trace_exit_def trace_resume_def active_operations_add_def time_time_def end_span_def
        latency_histogram_record_def error_counter_add_def record_exception_def set_status_def
        Let_def split: sum.splits)

lemma trace_operation_gauge:
  assumes "\<And>sp w'. active_operations (tel (snd (body sp w'))) = active_operations (tel w')"
  shows "active_operations (tel (snd (trace_operation nm k a c body w))) = active_operations (tel w)"
proof -
  obtain t0 sp saved w1 where en: "trace_enter nm k a c w = (t0, sp, saved, w1)"
    by (metis prod_cases4)
  obtain r w2 where bd: "body sp w1 = (r, w2)"
    by fastforce
  have "active_operations (tel w2) = active_operations (tel w1)"
    using assms [of sp w1] bd by simp
  then show ?thesis
    using en bd trace_enter_gauge [OF en]
    by (simp add: trace_operation_def trace_exit_gauge)
qed

lemma fst_trace_operation:
  assumes "trace_enter nm k a c w = (t0, sp, saved, w1)"
  shows "fst (trace_operation nm k a c body w) = fst (body sp w1)"
  using assms by (simp add: trace_operation_def split_beta)

lemma trace_operation_observes:
  "fst (trace_operation nm k a c observing_body w) = Inr (active_operations (tel w) + 1)"
proof -
  obtain t0 sp saved w1 where en: "trace_enter nm k a c w = (t0, sp, saved, w1)"
    by (metis prod_cases4)
  show ?thesis
    using fst_trace_operation [OF en, of observing_body] trace_enter_gauge [OF en]
    by (simp add: observing_body_def)
qed

lemma mixed_operations_neutral:
  "\<forall>t \<in> set mixed_operations. \<forall>sp w'.
     active_operations (tel (snd (op_body t sp w'))) = active_operations (tel w')"
proof -
  have "active_operations (tel (snd (trace_operation ''inner'' CLIENT None None observing_body w')))
          = active_operations (tel w')" for w'
    by (rule trace_operation_gauge) (simp add: observing_body_def)
  then show ?thesis
    by (simp add: mixed_operations_def observing_body_def raising_body_def)
qed

lemma mixed_operations_results:
  "fst (run_operations mixed_operations idle_world)
     = [Inr 1, Inl (ValueError ''boom''), Inl (PyExc ''KeyboardInterrupt'' False []), Inr 2]"
proof -
  let ?b2 = "raising_body (ValueError ''boom'') :: nat \<Rightarrow> int action"
  let ?b3 = "raising_body (PyExc ''KeyboardInterrupt'' False []) :: nat \<Rightarrow> int action"
  let ?b4 = "\<lambda>sp :: nat. trace_operation ''inner'' CLIENT None None observing_body"
  obtain r1 w1 where 1: "trace_operation ''first'' INTERNAL None None observing_body idle_world
                           = (r1, w1)" by fastforce
  obtain r2 w2 where 2: "trace_operation ''second'' CONSUMER None None ?b2 w1 = (r2, w2)"
    by fastforce
  obtain r3 w3 where 3: "trace_operation ''third'' INTERNAL None None ?b3 w2 = (r3, w3)"
    by fastforce
  obtain r4 w4 where 4: "trace_operation ''fourth'' INTERNAL None None ?b4 w3 = (r4, w4)"
    by fastforce
  have g1: "active_operations (tel w1) = 0"
    using trace_operation_gauge [of observing_body "''first''" INTERNAL None None idle_world] 1
    by (simp add: observing_body_def idle_world_def new_telemetry_def)
  have g2: "active_operations (tel w2) = 0"
    using trace_operation_gauge [of ?b2 "''second''" CONSUMER None None w1] 2 g1
    by (simp add: raising_body_def)
  have g3: "active_operations (tel w3) = 0"
    using trace_operation_gauge [of ?b3 "''third''" INTERNAL None None w2] 3 g2
    by (simp add: raising_body_def)
  have r1: "r1 = Inr 1"
    using trace_operation_observes [of "''first''" INTERNAL None None idle_world] 1
    by (simp add: idle_world_def new_telemetry_def)
  obtain ta sa sva wa where e2: "trace_enter ''second'' CONSUMER None None w1 = (ta, sa, sva, wa)"
    by (metis prod_cases4)
  have r2: "r2 = Inl (ValueError ''boom'')"
    using fst_trace_operation [OF e2, of ?b2] 2 by (simp add: raising_body_def)
  obtain tb sb svb wb where e3: "trace_enter ''third'' INTERNAL None None w2 = (tb, sb, svb, wb)"
    by (metis prod_cases4)
  have r3: "r3 = Inl (PyExc ''KeyboardInterrupt'' False [])"
    using fst_trace_operation [OF e3, of ?b3] 3 by (simp add: raising_body_def)
  obtain tc sc svc wc where e4: "trace_enter ''fourth'' INTERNAL None None w3 = (tc, sc, svc, wc)"
    by (metis prod_cases4)
  have r4: "r4 = Inr 2"
    using fst_trace_operation [OF e4, of ?b4] 4 trace_enter_gauge [OF e4] g3
      trace_operation_observes [of "''inner''" CLIENT None None wc]
    by simp
  show ?thesis
    using 1 2 3 4 r1 r2 r3 r4 by (simp add: mixed_operations_def)
qed

text \<open>
  Claim C3. Every invocation of \<^verbatim>\<open>trace_operation\<close>, whatever its body, runs the body in
  a state in which the in-flight gauge is one more than before the invocation, and ends
  in a state in which the gauge is one less than where the body left it: whatever the
  outcome of the body (a value, an exception, or an exception that is not an
  \<^verbatim>\<open>Exception\<close>, since the decrement sits in \<^verbatim>\<open>finally\<close>). So after any sequence of
  invocations, each run to its end, the gauge is back at the value it had before: zero,
  when it started from zero. The bodies of the sequence may contain further traced
  operations; all that is asked of them is that they leave the gauge as they found it.
\<close>

theorem in_flight_gauge_nets_to_zero:
  fixes ts :: "'a traced list"
  assumes "\<forall>t \<in> set ts. \<forall>sp w'.
             active_operations (tel (snd (op_body t sp w'))) = active_operations (tel w')"
  shows "active_operations (tel (snd (run_operations ts w))) = active_operations (tel w)
         \<and> (\<forall>nm k a c (body :: nat \<Rightarrow> 'a action) w0. \<exists>t0 sp saved w1 r w2.
               trace_enter nm k a c w0 = (t0, sp, saved, w1)
               \<and> active_operations (tel w1) = active_operations (tel w0) + 1
               \<and> body sp w1 = (r, w2)
               \<and> trace_operation nm k a c body w0 = (r, trace_exit nm t0 sp saved r w2)
               \<and> active_operations (tel (trace_exit nm t0 sp saved r w2))
                   = active_operations (tel w2) - 1)"
proof
  show "active_operations (tel (snd (run_operations ts w))) = active_operations (tel w)"
    using assms
  proof (induction ts arbitrary: w)
    case Nil
    then show ?case by simp
  next
    case (Cons t ts)
    have one: "active_operations
                 (tel (snd (trace_operation (op_name t) (op_kind t) (op_attributes t)
                              (op_context t) (op_body t) w))) = active_operations (tel w)"
      by (rule trace_operation_gauge) (use Cons.prems in simp)
    show ?case
      using Cons.IH [of "snd (trace_operation (op_name t) (op_kind t) (op_attributes t)
                                (op_context t) (op_body t) w)"] Cons.prems one
      by (simp add: split_beta)
  qed
next
  show "\<forall>nm k a c (body :: nat \<Rightarrow> 'a action) w0. \<exists>t0 sp saved w1 r w2.
               trace_enter nm k a c w0 = (t0, sp, saved, w1)
               \<and> active_operations (tel w1) = active_operations (tel w0) + 1
               \<and> body sp w1 = (r, w2)
               \<and> trace_operation nm k a c body w0 = (r, trace_exit nm t0 sp saved r w2)
               \<and> active_operations (tel (trace_exit nm t0 sp saved r w2))
                   = active_operations (tel w2) - 1"
  proof (intro allI)
    fix nm k a c and body :: "nat \<Rightarrow> 'a action" and w0
    obtain t0 sp saved w1 where en: "trace_enter nm k a c w0 = (t0, sp, saved, w1)"
      by (metis prod_cases4)
    obtain r w2 where bd: "body sp w1 = (r, w2)"
      by fastforce
    show "\<exists>t0 sp saved w1 r w2.
               trace_enter nm k a c w0 = (t0, sp, saved, w1)
               \<and> active_operations (tel w1) = active_operations (tel w0) + 1
               \<and> body sp w1 = (r, w2)
               \<and> trace_operation nm k a c body w0 = (r, trace_exit nm t0 sp saved r w2)
               \<and> active_operations (tel (trace_exit nm t0 sp saved r w2))
                   = active_operations (tel w2) - 1"
      using en bd trace_enter_gauge [OF en] trace_operation_eq [where body = body, OF en bd]
        trace_exit_gauge
      by blast
  qed
qed

theorem in_flight_gauge_nets_to_zero_witness:
  "active_operations (tel (snd (run_operations mixed_operations idle_world))) = 0
   \<and> fst (run_operations mixed_operations idle_world)
       = [Inr 1, Inl (ValueError ''boom''), Inl (PyExc ''KeyboardInterrupt'' False []), Inr 2]
   \<and> fst (trace_operation ''first'' INTERNAL None None observing_body idle_world) = Inr 1"
proof -
  note inst = in_flight_gauge_nets_to_zero [OF mixed_operations_neutral, where w = idle_world]
  have zero: "active_operations (tel (snd (run_operations mixed_operations idle_world))) = 0"
    using inst by (simp add: idle_world_def new_telemetry_def)
  obtain t0 sp saved w1 r w2 where
    en: "trace_enter ''first'' INTERNAL None None idle_world = (t0, sp, saved, w1)"
    and g: "active_operations (tel w1) = active_operations (tel idle_world) + 1"
    and bd: "observing_body sp w1 = (r, w2)"
    and op: "trace_operation ''first'' INTERNAL None None observing_body idle_world
               = (r, trace_exit ''first'' t0 sp saved r w2)"
    using inst by blast
  have "r = Inr 1"
    using bd g by (auto simp: observing_body_def idle_world_def new_telemetry_def)
  then show ?thesis
    using zero op mixed_operations_results by simp
qed

section \<open>A failing body of trace_operation\<close>

text \<open>
  Claim C4, as the code has it. When the body of \<^verbatim>\<open>with trace_operation(name)\<close> raises
  \<open>e\<close>, the statement ends with the very same \<open>e\<close>, and the code of \<^verbatim>\<open>trace_operation\<close>
  has by then recorded the latency histogram and decremented the gauge. When \<open>e\<close> is an
  instance of \<^verbatim>\<open>Exception\<close>, it has also set the status of the span to error with the
  text of \<open>e\<close>, recorded \<open>e\<close> on the span and added 1 to the error counter, tagged with
  the operation name. When \<open>e\<close> is not (\<^verbatim>\<open>KeyboardInterrupt\<close>, \<^verbatim>\<open>SystemExit\<close>), the
  handler \<^verbatim>\<open>except Exception\<close> does not run: the spans and the error counter are as the
  body left them. The span is read in the state \<open>wh\<close> in which the code of
  \<^verbatim>\<open>trace_operation\<close> ends, before the tracing library closes the span; closing the span
  leaves the instruments alone.
\<close>

theorem trace_operation_failure:
  fixes body :: "nat \<Rightarrow> 'a action"
  assumes en: "trace_enter nm k a c w = (t0, sp, saved, w1)"
      and bd: "body sp w1 = (Inl e, w2)"
  shows "(let wh = trace_resume nm t0 sp (Inl e :: pyexc + 'a) w2;
              w' = end_span sp saved (Some e) wh
          in trace_operation nm k a c body w = (Inl e, w')
           \<and> tel w' = tel wh
           \<and> latency_histogram (tel wh) =
               latency_histogram (tel w2) @
                 [((clock w2 0 - t0) * 1000,
                   [(''operation'', nm), (''agent'', agent_value (agent_name (tel w2)))])]
           \<and> active_operations (tel wh) = active_operations (tel w2) - 1
           \<and> (is_Exception e \<longrightarrow>
                 status (spans wh sp) = StatusError (message e)
                 \<and> events (spans wh sp) = events (spans w2 sp) @ [e]
                 \<and> error_counter (tel wh) = error_counter (tel w2) @ [(1, [(''operation'', nm)])])
           \<and> (\<not> is_Exception e \<longrightarrow>
                 spans wh = spans w2 \<and> error_counter (tel wh) = error_counter (tel w2)))"
  using en bd
  by (simp add: trace_operation_def trace_exit_def trace_resume_def active_operations_add_def
        time_time_def end_span_def latency_histogram_record_def error_counter_add_def
        record_exception_def set_status_def Let_def)

lemma analyze_entered:
  assumes "trace_enter ''analyze'' INTERNAL None None idle_world = (t0, sp, saved, w1)"
  shows "sp = 0" "t0 = 0" "spans w1 0 = blank_span\<lparr>span_name := ''analyze'',
           sctx := \<lparr>trace_id = 1, span_id = 1, trace_flags = 1\<rparr>\<rparr>"
        "clock w1 0 = 1" "tel w1 = (new_telemetry RISK default_config)\<lparr>active_operations := 1\<rparr>"
  using assms
  by (auto simp: trace_enter_def active_operations_add_def time_time_def
      start_as_current_span_def current_span_context_def idle_world_def blank_span_def
      new_telemetry_def Let_def)

theorem trace_operation_failure_witness:
  "\<exists>t0 sp saved w1.
     trace_enter ''analyze'' INTERNAL None None idle_world = (t0, sp, saved, w1)
     \<and> is_Exception (ValueError ''boom'')
     \<and> fst (trace_operation ''analyze'' INTERNAL None None (raising_body (ValueError ''boom'')
               :: nat \<Rightarrow> unit action) idle_world) = Inl (ValueError ''boom'')
     \<and> status (spans (trace_resume ''analyze'' t0 sp (Inl (ValueError ''boom'') :: pyexc + unit) w1) sp)
         = StatusError ''boom''
     \<and> events (spans (trace_resume ''analyze'' t0 sp (Inl (ValueError ''boom'') :: pyexc + unit) w1) sp)
         = [ValueError ''boom'']
     \<and> error_counter (tel (snd (trace_operation ''analyze'' INTERNAL None None
                                   (raising_body (ValueError ''boom'') :: nat \<Rightarrow> unit action)
                                   idle_world)))
         = [(1, [(''operation'', ''analyze'')])]
     \<and> latency_histogram (tel (snd (trace_operation ''analyze'' INTERNAL None None
                                   (raising_body (ValueError ''boom'') :: nat \<Rightarrow> unit action)
                                   idle_world)))
         = [(1000, [(''operation'', ''analyze''), (''agent'', ''agent-risk'')])]
     \<and> active_operations (tel (snd (trace_operation ''analyze'' INTERNAL None None
                                   (raising_body (ValueError ''boom'') :: nat \<Rightarrow> unit action)
                                   idle_world))) = 0"
proof -
  obtain t0 sp saved w1
    where en: "trace_enter ''analyze'' INTERNAL None None idle_world = (t0, sp, saved, w1)"
    by (metis prod_cases4)
  have ex: "is_Exception (ValueError ''boom'')"
    by (simp add: ValueError_def)
  have bd: "(raising_body (ValueError ''boom'') :: nat \<Rightarrow> unit action) sp w1
              = (Inl (ValueError ''boom''), w1)"
    by (simp add: raising_body_def)
  note facts = analyze_entered [OF en]
  have "events (spans w1 sp) = []"
    using facts by (simp add: blank_span_def)
  then show ?thesis
    using trace_operation_failure
            [where body = "raising_body (ValueError ''boom'') :: nat \<Rightarrow> unit action", OF en bd]
      en ex facts(1,2,4,5)
    by (auto simp: Let_def new_telemetry_def ValueError_def)
qed

text \<open>
  What is read from the span once the statement has been left is up to the tracing
  library. With the one of \<open>idle_world\<close>, the exception is on the span twice and the status
  text carries the class name.
\<close>

lemma span_after_library_exit:
  "status (spans (snd (trace_operation ''analyze'' INTERNAL None None
                         (raising_body (ValueError ''boom'') :: nat \<Rightarrow> unit action)
                         idle_world)) 0)
     = StatusError ''ValueError: boom''
   \<and> events (spans (snd (trace_operation ''analyze'' INTERNAL None None
                           (raising_body (ValueError ''boom'') :: nat \<Rightarrow> unit action)
                           idle_world)) 0)
     = [ValueError ''boom'', ValueError ''boom'']"
  by (simp add: trace_operation_def trace_enter_def trace_exit_def trace_resume_def
      end_span_def raising_body_def active_operations_add_def time_time_def
      start_as_current_span_def current_span_context_def latency_histogram_record_def
      error_counter_add_def record_exception_def set_status_def idle_world_def blank_span_def
      ValueError_def Let_def)

text \<open>
  The claim as stated fails for a body that is interrupted: \<^verbatim>\<open>KeyboardInterrupt\<close> is not an
  \<^verbatim>\<open>Exception\<close>, so the error counter stays empty and the code of \<^verbatim>\<open>trace_operation\<close>
  leaves the span with no status and no event, although the exception leaves the
  statement.
\<close>

theorem trace_operation_interrupt_not_recorded:
  "fst (trace_operation ''analyze'' INTERNAL None None
          (raising_body (PyExc ''KeyboardInterrupt'' False []) :: nat \<Rightarrow> unit action) idle_world)
     = Inl (PyExc ''KeyboardInterrupt'' False [])
   \<and> error_counter (tel (snd (trace_operation ''analyze'' INTERNAL None None
          (raising_body (PyExc ''KeyboardInterrupt'' False []) :: nat \<Rightarrow> unit action) idle_world)))
     = []
   \<and> status (spans (trace_resume ''analyze'' 0 0
                      (Inl (PyExc ''KeyboardInterrupt'' False []) :: pyexc + unit)
                      (snd (snd (snd (trace_enter ''analyze'' INTERNAL None None idle_world))))) 0)
     = StatusUnset
   \<and> events (spans (trace_resume ''analyze'' 0 0
                      (Inl (PyExc ''KeyboardInterrupt'' False []) :: pyexc + unit)
                      (snd (snd (snd (trace_enter ''analyze'' INTERNAL None None idle_world))))) 0)
     = []"
proof -
  let ?e = "PyExc ''KeyboardInterrupt'' False []"
  obtain t0 sp saved w1
    where en: "trace_enter ''analyze'' INTERNAL None None idle_world = (t0, sp, saved, w1)"
    by (metis prod_cases4)
  note facts = analyze_entered [OF en]
  have w1: "snd (snd (snd (trace_enter ''analyze'' INTERNAL None None idle_world))) = w1"
    using en by simp
  have res: "trace_resume ''analyze'' 0 0 (Inl ?e :: pyexc + unit) w1
               = active_operations_add (- 1)
                   (latency_histogram_record ((clock w1 0 - 0) * 1000)
                      [(''operation'', ''analyze''), (''agent'', agent_value (agent_name (tel w1)))]
                      (snd (time_time w1)))"
    by (simp add: trace_resume_def time_time_def Let_def)
  have sp: "spans (trace_resume ''analyze'' 0 0 (Inl ?e :: pyexc + unit) w1) = spans w1"
    by (simp add: res active_operations_add_def latency_histogram_record_def time_time_def)
  have ec: "error_counter (tel (trace_resume ''analyze'' 0 0 (Inl ?e :: pyexc + unit) w1)) = []"
    by (simp add: res active_operations_add_def latency_histogram_record_def time_time_def
          facts(5) new_telemetry_def)
  have top: "trace_operation ''analyze'' INTERNAL None None (raising_body ?e :: nat \<Rightarrow> unit action)
               idle_world
             = (Inl ?e, end_span 0 saved (Some ?e)
                          (trace_resume ''analyze'' 0 0 (Inl ?e :: pyexc + unit) w1))"
    using en facts(1,2) by (simp add: trace_operation_def trace_exit_def raising_body_def)
  have ec': "error_counter (tel (end_span 0 saved (Some ?e)
                          (trace_resume ''analyze'' 0 0 (Inl ?e :: pyexc + unit) w1))) = []"
    using ec by (simp add: end_span_def)
  show ?thesis
    using top ec' sp facts(3) by (simp add: w1 blank_span_def)
qed

section \<open>Round trip of the trace context through a carrier\<close>

lemma length_hex_fixed: "length (hex_fixed k n) = k"
  by (induction k arbitrary: n) auto

lemma index_of_Some: "index_of x ys = Some i \<Longrightarrow> i < length ys \<and> ys ! i = x"
  by (induction ys arbitrary: i) (auto split: if_splits)

lemma index_of_nth: "distinct ys \<Longrightarrow> i < length ys \<Longrightarrow> index_of (ys ! i) ys = Some i"
  by (induction ys arbitrary: i) (auto simp: nth_Cons split: nat.splits)

lemma hex_value_hex_digit:
  assumes "d < 16"
  shows "hex_value (hex_digit d) = Some d"
  unfolding hex_value_def hex_digit_def
  by (rule index_of_nth) (use assms in simp_all)

lemma hex_digit_hex_value:
  assumes "hex_value c = Some d"
  shows "d < 16 \<and> hex_digit d = c"
  using index_of_Some [of c "''0123456789abcdef''" d] assms
  by (simp add: hex_value_def hex_digit_def)

lemma parse_hex_append:
  "parse_hex acc (xs @ ys) =
     (case parse_hex acc xs of None \<Rightarrow> None | Some a \<Rightarrow> parse_hex a ys)"
  by (induction xs arbitrary: acc) (auto split: option.splits)

lemma parse_hex_fixed: "parse_hex acc (hex_fixed k n) = Some (acc * 16 ^ k + n mod 16 ^ k)"
proof (induction k arbitrary: n)
  case 0
  then show ?case by simp
next
  case (Suc k)
  have "n mod (16 * 16 ^ k) = 16 * (n div 16 mod 16 ^ k) + n mod 16"
    by (rule mod_mult2_eq)
  then show ?case
    by (simp add: parse_hex_append Suc.IH hex_value_hex_digit algebra_simps)
qed

lemma parse_hex_fixed_small:
  assumes "n < 16 ^ k"
  shows "parse_hex 0 (hex_fixed k n) = Some n"
  using assms by (simp add: parse_hex_fixed)

lemma parse_format_traceparent:
  assumes "is_valid c"
  shows "parse_traceparent (format_traceparent c) = Some c"
proof -
  let ?t = "hex_fixed 32 (unat (trace_id c))"
  let ?p = "hex_fixed 16 (unat (span_id c))"
  let ?f = "hex_fixed 2 (unat (trace_flags c))"
  let ?s = "format_traceparent c"
  have s: "?s = ''00-'' @ ?t @ ''-'' @ ?p @ ''-'' @ ?f"
    by (simp add: format_traceparent_def)
  have len: "length ?s = 55"
    by (simp add: s length_hex_fixed)
  have seps: "?s ! 2 = CHR ''-''" "?s ! 35 = CHR ''-''" "?s ! 52 = CHR ''-''"
    by (simp_all add: s nth_append length_hex_fixed)
  have parts: "take 2 ?s = ''00''" "take 32 (drop 3 ?s) = ?t" "take 16 (drop 36 ?s) = ?p"
    "drop 53 ?s = ?f"
    by (simp_all add: s length_hex_fixed)
  have "unat (trace_id c) < 2 ^ 128" "unat (span_id c) < 2 ^ 64" "unat (trace_flags c) < 2 ^ 8"
    using unsigned_less [of "trace_id c", where ?'a = nat]
      unsigned_less [of "span_id c", where ?'a = nat]
      unsigned_less [of "trace_flags c", where ?'a = nat]
    by simp_all
  then have b: "unat (trace_id c) < 16 ^ 32" "unat (span_id c) < 16 ^ 16"
    "unat (trace_flags c) < 16 ^ 2"
    by simp_all
  have v: "parse_hex 0 ''00'' = Some 0"
    by (simp add: hex_value_def)
  have nz: "unat (trace_id c) \<noteq> 0" "unat (span_id c) \<noteq> 0"
    using assms by (simp_all add: is_valid_def unat_0_iff)
  show ?thesis
    unfolding parse_traceparent_def
    using len seps nz
    by (simp add: parts hex_value_def parse_hex_fixed_small [OF b(1)] parse_hex_fixed_small [OF b(2)]
          parse_hex_fixed_small [OF b(3)])
qed

lemma parse_hex_snoc:
  "parse_hex acc (xs @ [c]) = Some n \<longleftrightarrow>
     (\<exists>a d. parse_hex acc xs = Some a \<and> hex_value c = Some d \<and> n = 16 * a + d)"
  by (auto simp: parse_hex_append split: option.splits)

lemma hex_fixed_parse_hex:
  "parse_hex 0 s = Some n \<Longrightarrow> hex_fixed (length s) n = s \<and> n < 16 ^ length s"
proof (induction s arbitrary: n rule: rev_induct)
  case Nil
  then show ?case by simp
next
  case (snoc c xs)
  then obtain a d where a: "parse_hex 0 xs = Some a" and d: "hex_value c = Some d"
    and n: "n = 16 * a + d"
    by (auto simp: parse_hex_snoc)
  have dd: "d < 16" "hex_digit d = c"
    using hex_digit_hex_value [OF d] by simp_all
  have ih: "hex_fixed (length xs) a = xs" "a < 16 ^ length xs"
    using snoc.IH [OF a] by simp_all
  have "n div 16 = a" "n mod 16 = d"
    using n dd by simp_all
  moreover have "n < 16 * 16 ^ length xs"
  proof -
    have "16 * a + d < 16 * (a + 1)" using dd by simp
    also have "\<dots> \<le> 16 * 16 ^ length xs" using ih(2) by simp
    finally show ?thesis using n by simp
  qed
  ultimately show ?case
    using ih dd by simp
qed

lemma split_traceparent:
  assumes "length s = 55"
  shows "s = take 2 s @ [s ! 2] @ take 32 (drop 3 s) @ [s ! 35] @ take 16 (drop 36 s)
               @ [s ! 52] @ drop 53 s"
proof -
  have 1: "s = take 2 s @ s ! 2 # drop 3 s"
    using id_take_nth_drop [of 2 s] assms by simp
  have 2: "drop 3 s = take 32 (drop 3 s) @ s ! 35 # drop 36 s"
    using id_take_nth_drop [of 32 "drop 3 s"] assms by (simp add: add.commute)
  have 3: "drop 36 s = take 16 (drop 36 s) @ s ! 52 # drop 53 s"
    using id_take_nth_drop [of 16 "drop 36 s"] assms by (simp add: add.commute)
  show ?thesis
    using 1 2 3 by (metis append_Cons append_Nil)
qed

lemma parse_traceparent_Some:
  assumes "parse_traceparent s = Some c"
  shows "is_valid c \<and>
         (\<exists>v<255. s = hex_fixed 2 v @ ''-'' @ hex_fixed 32 (unat (trace_id c)) @ ''-''
                     @ hex_fixed 16 (unat (span_id c)) @ ''-''
                     @ hex_fixed 2 (unat (trace_flags c)))"
proof -
  from assms have len: "length s = 55"
    and seps: "s ! 2 = CHR ''-''" "s ! 35 = CHR ''-''" "s ! 52 = CHR ''-''"
    by (auto simp: parse_traceparent_def split: if_splits)
  from assms len seps obtain v t p f where
    v: "parse_hex 0 (take 2 s) = Some v" and t: "parse_hex 0 (take 32 (drop 3 s)) = Some t"
    and p: "parse_hex 0 (take 16 (drop 36 s)) = Some p" and f: "parse_hex 0 (drop 53 s) = Some f"
    and ok: "v \<noteq> 255" "t \<noteq> 0" "p \<noteq> 0"
    and c: "c = \<lparr>trace_id = of_nat t, span_id = of_nat p, trace_flags = of_nat f\<rparr>"
    by (auto simp: parse_traceparent_def split: option.splits if_splits)
  have hv: "hex_fixed 2 v = take 2 s" "v < 16 ^ 2"
    using hex_fixed_parse_hex [OF v] len by simp_all
  have ht: "hex_fixed 32 t = take 32 (drop 3 s)" "t < 16 ^ 32"
    using hex_fixed_parse_hex [OF t] len by simp_all
  have hp: "hex_fixed 16 p = take 16 (drop 36 s)" "p < 16 ^ 16"
    using hex_fixed_parse_hex [OF p] len by simp_all
  have hf: "hex_fixed 2 f = drop 53 s" "f < 16 ^ 2"
    using hex_fixed_parse_hex [OF f] len by simp_all
  have ut: "unat (trace_id c) = t" and up: "unat (span_id c) = p" and uf: "unat (trace_flags c) = f"
    using ht(2) hp(2) hf(2) by (simp_all add: c unat_of_nat)
  have valid: "is_valid c"
    using ok ut up by (auto simp: is_valid_def simp flip: unat_0_iff)
  have "v < 255" using hv(2) ok(1) by simp
  moreover have "s = hex_fixed 2 v @ ''-'' @ hex_fixed 32 (unat (trace_id c)) @ ''-''
                     @ hex_fixed 16 (unat (span_id c)) @ ''-''
                     @ hex_fixed 2 (unat (trace_flags c))"
    using split_traceparent [OF len] seps by (simp add: ut up uf hv ht hp hf)
  ultimately show ?thesis using valid by blast
qed

lemma dicts_inject_context:
  "dicts (inject_context r w) r = dicts w r ++ carrier_entries w"
  by (simp add: inject_context_def carrier_entries_def dict_setitem_def split: option.splits)

lemma dicts_inject_context_other:
  "r' \<noteq> r \<Longrightarrow> dicts (inject_context r w) r' = dicts w r'"
  by (simp add: inject_context_def dict_setitem_def split: option.splits)

lemma extract_carrier_entries:
  assumes "current_span w = Some i" "is_valid (sctx (spans w i))"
  shows "extract_context (m ++ carrier_entries w) = Some (sctx (spans w i))"
  using assms
  by (simp add: extract_context_def carrier_entries_def current_span_context_def
        parse_format_traceparent)

text \<open>
  Claim C6. When a span with a valid context \<open>c\<close> is active, \<^verbatim>\<open>inject_context\<close> on a
  carrier (an empty one in particular) followed by \<^verbatim>\<open>extract_context\<close> on that carrier
  gives a parent context with the trace identifier of \<open>c\<close>. A carrier without the
  \<^verbatim>\<open>traceparent\<close> entry gives no parent, and so does every malformed one:
  \<^verbatim>\<open>extract_context\<close> is a total function that returns a parent only when the entry is
  exactly the rendering version-traceid-spanid-flags of a valid context.
\<close>

theorem inject_extract_round_trip:
  "(\<forall>i. current_span w = Some i \<and> is_valid (sctx (spans w i)) \<longrightarrow>
      (\<exists>c. extract_context (dicts (inject_context r w) r) = Some c
           \<and> trace_id c = trace_id (sctx (spans w i))))
   \<and> (carrier ''traceparent'' = None \<longrightarrow> extract_context carrier = None)
   \<and> (\<forall>c. extract_context carrier = Some c \<longrightarrow>
         is_valid c \<and>
         (\<exists>v<255. carrier ''traceparent'' =
            Some (PStr (hex_fixed 2 v @ ''-'' @ hex_fixed 32 (unat (trace_id c)) @ ''-''
                         @ hex_fixed 16 (unat (span_id c)) @ ''-''
                         @ hex_fixed 2 (unat (trace_flags c))))))"
proof (intro conjI allI impI)
  fix i
  assume "current_span w = Some i \<and> is_valid (sctx (spans w i))"
  then show "\<exists>c. extract_context (dicts (inject_context r w) r) = Some c
           \<and> trace_id c = trace_id (sctx (spans w i))"
    by (simp add: dicts_inject_context extract_carrier_entries)
next
  assume "carrier ''traceparent'' = None"
  then show "extract_context carrier = None"
    by (simp add: extract_context_def)
next
  fix c
  assume a: "extract_context carrier = Some c"
  then obtain s where s: "carrier ''traceparent'' = Some (PStr s)" "parse_traceparent s = Some c"
    by (auto simp: extract_context_def split: option.splits pyval.splits)
  show "is_valid c" using parse_traceparent_Some [OF s(2)] by simp
  show "\<exists>v<255. carrier ''traceparent'' =
            Some (PStr (hex_fixed 2 v @ ''-'' @ hex_fixed 32 (unat (trace_id c)) @ ''-''
                         @ hex_fixed 16 (unat (span_id c)) @ ''-''
                         @ hex_fixed 2 (unat (trace_flags c))))"
    using parse_traceparent_Some [OF s(2)] s(1) by auto
qed

lemma tracing_world_span:
  "current_span tracing_world = Some 0"
  "sctx (spans tracing_world 0) = \<lparr>trace_id = 1, span_id = 1, trace_flags = 1\<rparr>"
  "dict_count tracing_world = 0"
  "dicts tracing_world = (\<lambda>r. Map.empty)"
  by (simp_all add: tracing_world_def trace_enter_def active_operations_add_def time_time_def
        start_as_current_span_def current_span_context_def idle_world_def Let_def)

theorem inject_extract_round_trip_witness:
  "current_span tracing_world = Some 0 \<and> is_valid (sctx (spans tracing_world 0))
   \<and> dicts tracing_world 0 = Map.empty
   \<and> extract_context (dicts (inject_context 0 tracing_world) 0)
       = Some \<lparr>trace_id = 1, span_id = 1, trace_flags = 1\<rparr>
   \<and> dicts (inject_context 0 tracing_world) 0 ''traceparent''
       = Some (PStr (hex_fixed 2 0 @ ''-'' @ hex_fixed 32 1 @ ''-'' @ hex_fixed 16 1 @ ''-''
                      @ hex_fixed 2 1))
   \<and> extract_context Map.empty = None"
proof -
  have v: "is_valid (sctx (spans tracing_world 0))"
    by (simp add: tracing_world_span is_valid_def)
  have e: "extract_context (dicts (inject_context 0 tracing_world) 0)
             = Some \<lparr>trace_id = 1, span_id = 1, trace_flags = 1\<rparr>"
    using extract_carrier_entries [of tracing_world 0 Map.empty] v
    by (simp add: dicts_inject_context tracing_world_span)
  have d: "dicts (inject_context 0 tracing_world) 0 ''traceparent''
       = Some (PStr (hex_fixed 2 0 @ ''-'' @ hex_fixed 32 1 @ ''-'' @ hex_fixed 16 1 @ ''-''
                      @ hex_fixed 2 1))"
    using v
    by (simp add: dicts_inject_context carrier_entries_def current_span_context_def
          tracing_world_span format_traceparent_def numeral_2_eq_2 hex_digit_def)
  show ?thesis
    using inject_extract_round_trip [of tracing_world 0 Map.empty]
      inject_extract_round_trip [of tracing_world 0 "dicts (inject_context 0 tracing_world) 0"]
      v e d
    by (simp add: tracing_world_span)
qed

section \<open>The singleton\<close>

text \<open>
  Claim C7. After a call of \<^verbatim>\<open>initialize\<close> that returned, every later call, with the same
  or another agent name, with or without a configuration, in whatever environment,
  returns the object of the class as it is and changes nothing: \<^verbatim>\<open>__new__\<close> hands out the
  stored instance and \<^verbatim>\<open>__init__\<close> returns at once. This also holds for any state the
  instruments have reached in between: nothing is reset or built again.
\<close>

theorem initialize_idempotent:
  assumes "initialize nm cfg from_env cls = (Inr obj, cls1)"
  shows "\<exists>t. obj = Ready t \<and> cls1 = Some (Ready t)
           \<and> (\<forall>nm' cfg' from_env'. initialize nm' cfg' from_env' cls1 = (Inr obj, cls1))
           \<and> (\<forall>t' nm' cfg' from_env'.
                 initialize nm' cfg' from_env' (Some (Ready t')) = (Inr (Ready t'), Some (Ready t')))"
  using assms
  by (auto simp: initialize_def telemetry_new_def telemetry_init_def
        split: option.splits telemetry_obj.splits sum.splits)

theorem initialize_idempotent_witness:
  "initialize RISK None (Inr default_config) None
     = (Inr (Ready (new_telemetry RISK default_config)), Some (Ready (new_telemetry RISK default_config)))
   \<and> initialize DECISION (Some (default_config\<lparr>environment := ''production''\<rparr>))
        (Inl (ValueError ''could not convert string to float''))
        (Some (Ready (new_telemetry RISK default_config)))
     = (Inr (Ready (new_telemetry RISK default_config)), Some (Ready (new_telemetry RISK default_config)))"
proof -
  have first: "initialize RISK None (Inr default_config) None
     = (Inr (Ready (new_telemetry RISK default_config)), Some (Ready (new_telemetry RISK default_config)))"
    by (simp add: initialize_def telemetry_new_def telemetry_init_def)
  show ?thesis
    using initialize_idempotent [OF first] first by simp
qed

section \<open>The level methods of AgentLogger\<close>

text \<open>
  Claim C5, as the code has it. For keyword fields that do not collide with the
  parameters \<^verbatim>\<open>self\<close>, \<^verbatim>\<open>event\<close> and \<^verbatim>\<open>level\<close>, each of the five level methods does
  exactly what the bound logger does: it returns when the logger returns and raises the
  logger's exception when the logger raises. Nothing in \<^verbatim>\<open>_log\<close> catches anything.
\<close>

theorem level_methods_pass_sink_outcome:
  assumes "kwargs ''self'' = None" "kwargs ''event'' = None" "kwargs ''level'' = None"
  shows "fst (logger_debug snk event kwargs w)
           = (case snk ''debug'' event kwargs of Inl e \<Rightarrow> Inl e | Inr lines \<Rightarrow> Inr ())
       \<and> fst (logger_info snk event kwargs w)
           = (case snk ''info'' event kwargs of Inl e \<Rightarrow> Inl e | Inr lines \<Rightarrow> Inr ())
       \<and> fst (logger_warning snk event kwargs w)
           = (case snk ''warning'' event kwargs of Inl e \<Rightarrow> Inl e | Inr lines \<Rightarrow> Inr ())
       \<and> fst (logger_error snk event kwargs w)
           = (case snk ''error'' event kwargs of Inl e \<Rightarrow> Inl e | Inr lines \<Rightarrow> Inr ())
       \<and> fst (logger_exception snk event kwargs w)
           = (case snk ''exception'' event kwargs of Inl e \<Rightarrow> Inl e | Inr lines \<Rightarrow> Inr ())"
  using assms
  by (simp add: logger_debug_def logger_info_def logger_warning_def logger_error_def
        logger_exception_def level_method_def logger_log_def multiple_values_def
        split: sum.splits)

theorem level_methods_pass_sink_outcome_witness:
  "fst (logger_info quiet_sink ''agent_initialized'' [''agent'' \<mapsto> PStr ''agent-risk''] idle_world)
     = Inr ()
   \<and> fst (logger_error broken_sink ''execute_failed'' [''application_id'' \<mapsto> PStr ''APP-1''] idle_world)
     = Inl (ValueError ''I/O operation on closed file'')"
  using level_methods_pass_sink_outcome
          [of "[''agent'' \<mapsto> PStr ''agent-risk'']" quiet_sink "''agent_initialized''" idle_world]
        level_methods_pass_sink_outcome
          [of "[''application_id'' \<mapsto> PStr ''APP-1'']" broken_sink "''execute_failed''" idle_world]
  by (simp add: quiet_sink_def broken_sink_def)

text \<open>
  The claim as stated fails: a level method raises when the bound logger raises, and
  also when a keyword field is named \<^verbatim>\<open>level\<close>.
\<close>

theorem level_method_raises:
  "fst (logger_error broken_sink ''execute_failed'' Map.empty idle_world)
     = Inl (ValueError ''I/O operation on closed file'')
   \<and> fst (logger_info quiet_sink ''started'' [''level'' \<mapsto> PStr ''high''] idle_world)
     = Inl (TypeError (''AgentLogger._log() got multiple values for argument '' @ [CHR 0x27] @ ''level'' @ [CHR 0x27]))"
  by (simp add: logger_error_def logger_info_def level_method_def logger_log_def
        multiple_values_def broken_sink_def quiet_sink_def)

section \<open>Outbound headers and messages\<close>

lemma prepare_headers_eq:
  "prepare_headers app extra w =
     (dict_count w,
      (let d = (case extra of None \<Rightarrow> Map.empty | Some r \<Rightarrow> dicts w r);
           w1 = snd (dict_new d w);
           w2 = inject_context (dict_count w) w1
       in if truthy app then dict_setitem (dict_count w) ''x-application-id'' app w2 else w2))"
  by (auto simp: prepare_headers_def dict_new_def Let_def split: option.splits)

lemma current_span_context_dict_new:
  "current_span_context (snd (dict_new d w)) = current_span_context w"
  by (simp add: current_span_context_def dict_new_def split: option.splits)

lemma carrier_entries_dict_new: "carrier_entries (snd (dict_new d w)) = carrier_entries w"
  by (simp add: carrier_entries_def current_span_context_dict_new)

lemma prepare_headers_result:
  assumes "prepare_headers app extra w = (h, w')"
  shows "h = dict_count w"
    and "dicts w' h = ((case extra of None \<Rightarrow> Map.empty | Some r \<Rightarrow> dicts w r) ++ carrier_entries w)
                        ++ (if truthy app then [''x-application-id'' \<mapsto> app] else Map.empty)"
    and "\<forall>r. r \<noteq> dict_count w \<longrightarrow> dicts w' r = dicts w r"
proof -
  let ?d = "case extra of None \<Rightarrow> Map.empty | Some r \<Rightarrow> dicts w r"
  let ?w1 = "snd (dict_new ?d w)"
  let ?w2 = "inject_context (dict_count w) ?w1"
  have h: "h = dict_count w"
    and w': "w' = (if truthy app then dict_setitem (dict_count w) ''x-application-id'' app ?w2 else ?w2)"
    using assms by (simp_all add: prepare_headers_eq Let_def)
  show "h = dict_count w" by (rule h)
  have d1: "dicts ?w1 (dict_count w) = ?d"
    by (simp add: dict_new_def)
  have d2: "dicts ?w2 (dict_count w) = ?d ++ carrier_entries w"
    by (simp add: dicts_inject_context d1 carrier_entries_dict_new)
  show "dicts w' h = (?d ++ carrier_entries w)
                        ++ (if truthy app then [''x-application-id'' \<mapsto> app] else Map.empty)"
    using d2 by (simp add: h w' dict_setitem_def)
  show "\<forall>r. r \<noteq> dict_count w \<longrightarrow> dicts w' r = dicts w r"
    by (simp add: w' dict_setitem_def dicts_inject_context_other dict_new_def)
qed

text \<open>
  Claim C10. \<^verbatim>\<open>prepare_headers\<close> never changes the dictionary it is given: for an
  allocated dictionary \<open>r\<close>, the call leaves \<open>r\<close> and every other existing dictionary as
  they were, and returns a newly allocated dictionary that holds the caller's entries,
  then the entries that \<^verbatim>\<open>inject_context\<close> writes, then \<^verbatim>\<open>x-application-id\<close> when the
  application id is non-empty.
\<close>

theorem prepare_headers_leaves_argument:
  assumes "r < dict_count w"
      and "prepare_headers app (Some r) w = (h, w')"
  shows "dicts w' r = dicts w r
       \<and> (\<forall>r' < dict_count w. dicts w' r' = dicts w r')
       \<and> h = dict_count w \<and> h \<noteq> r
       \<and> dicts w' h = (dicts w r ++ carrier_entries w)
                        ++ (if truthy app then [''x-application-id'' \<mapsto> app] else Map.empty)"
  using assms prepare_headers_result [OF assms(2)] by auto

lemma headers_world_facts:
  "dict_count headers_world = 1"
  "dicts headers_world 0 = [''content-type'' \<mapsto> PStr ''json'']"
  "current_span headers_world = Some 0"
  "sctx (spans headers_world 0) = \<lparr>trace_id = 1, span_id = 1, trace_flags = 1\<rparr>"
  by (simp_all add: headers_world_def dict_new_def tracing_world_span)

lemma carrier_entries_Some:
  assumes "current_span w = Some i" "is_valid (sctx (spans w i))"
  shows "carrier_entries w = [''traceparent'' \<mapsto> PStr (format_traceparent (sctx (spans w i)))]"
  using assms by (simp add: carrier_entries_def current_span_context_def)

theorem prepare_headers_leaves_argument_witness:
  "0 < dict_count headers_world
   \<and> (\<exists>w'. prepare_headers (PStr ''APP-1'') (Some 0) headers_world = (1, w')
          \<and> dicts w' 0 = dicts headers_world 0
          \<and> dicts w' 1 ''content-type'' = Some (PStr ''json'')
          \<and> dicts w' 1 ''x-application-id'' = Some (PStr ''APP-1'')
          \<and> dicts w' 1 ''traceparent''
              = Some (PStr (format_traceparent \<lparr>trace_id = 1, span_id = 1, trace_flags = 1\<rparr>)))"
proof -
  obtain h w' where p: "prepare_headers (PStr ''APP-1'') (Some 0) headers_world = (h, w')"
    by fastforce
  have a: "0 < dict_count headers_world"
    by (simp add: headers_world_facts)
  have v: "is_valid (sctx (spans headers_world 0))"
    by (simp add: headers_world_facts is_valid_def)
  show ?thesis
    using prepare_headers_leaves_argument [OF a p] p
      carrier_entries_Some [OF headers_world_facts(3) v]
    by (auto simp: headers_world_facts)
qed

text \<open>
  Claim C9, as the code has it. The body returned by \<^verbatim>\<open>prepare_output_message\<close> has
  exactly the seven keys, with the values of the context, the agent name and the result.
  The metadata is a new dictionary holding what \<^verbatim>\<open>inject_context\<close> writes and nothing
  else but the application header. When a span with a valid context is active at the
  call, that is a \<^verbatim>\<open>traceparent\<close> entry which \<^verbatim>\<open>extract_context\<close> reads back to the
  context of that span; when no span is active, or the active span has no valid context,
  the metadata has no \<^verbatim>\<open>traceparent\<close> entry and \<^verbatim>\<open>extract_context\<close> finds no context in
  it. The entry \<^verbatim>\<open>x-application-id\<close> is there exactly when the application id of the
  context is non-empty: \<^verbatim>\<open>prepare_headers\<close> guards it with \<^verbatim>\<open>if application_id\<close>.
\<close>

theorem prepare_output_message_shape:
  assumes "prepare_output_message ag result cx w = ((val, h), w')"
  shows "dom val = {''application_id'', ''request_id'', ''agent'', ''success'', ''data'',
                    ''error'', ''latency_ms''}
       \<and> val ''application_id'' = Some (application_id cx)
       \<and> val ''request_id'' = Some (request_id cx)
       \<and> val ''agent'' = Some (PStr (agent_value (ag_name ag)))
       \<and> val ''success'' = Some (PBool (success result))
       \<and> val ''data'' = Some (data result)
       \<and> val ''error'' = Some (case error result of None \<Rightarrow> PNone | Some m \<Rightarrow> PStr m)
       \<and> val ''latency_ms'' = Some (PFloat (latency_ms result))
       \<and> h = dict_count w
       \<and> dicts w' h = carrier_entries w
                        ++ (if truthy (application_id cx)
                            then [''x-application-id'' \<mapsto> application_id cx] else Map.empty)
       \<and> (\<forall>i. current_span w = Some i \<and> is_valid (sctx (spans w i)) \<longrightarrow>
              dicts w' h ''traceparent'' = Some (PStr (format_traceparent (sctx (spans w i))))
              \<and> extract_context (dicts w' h) = Some (sctx (spans w i)))
       \<and> ((\<forall>i. current_span w = Some i \<longrightarrow> \<not> is_valid (sctx (spans w i))) \<longrightarrow>
              dicts w' h ''traceparent'' = None \<and> extract_context (dicts w' h) = None)
       \<and> (truthy (application_id cx) \<longrightarrow>
              dicts w' h ''x-application-id'' = Some (application_id cx))
       \<and> (\<not> truthy (application_id cx) \<longrightarrow> dicts w' h ''x-application-id'' = None)"
proof -
  obtain h0 w0 where ph: "prepare_headers (application_id cx) None w = (h0, w0)"
    by fastforce
  have hv: "h = h0" "w' = w0"
    and val: "val = [''application_id'' \<mapsto> application_id cx,
                 ''request_id'' \<mapsto> request_id cx,
                 ''agent'' \<mapsto> PStr (agent_value (ag_name ag)),
                 ''success'' \<mapsto> PBool (success result),
                 ''data'' \<mapsto> data result,
                 ''error'' \<mapsto> (case error result of None \<Rightarrow> PNone | Some m \<Rightarrow> PStr m),
                 ''latency_ms'' \<mapsto> PFloat (latency_ms result)]"
    using assms ph by (auto simp: prepare_output_message_def)
  have h0: "h0 = dict_count w"
    and d: "dicts w0 h0 = carrier_entries w
                        ++ (if truthy (application_id cx)
                            then [''x-application-id'' \<mapsto> application_id cx] else Map.empty)"
    using prepare_headers_result(1,2) [OF ph] by simp_all
  have xnone: "carrier_entries w ''x-application-id'' = None"
    by (simp add: carrier_entries_def split: option.splits)
  have tp: "dicts w0 h0 ''traceparent'' = carrier_entries w ''traceparent''"
    by (simp add: d map_add_def)
  have ex: "\<forall>i. current_span w = Some i \<and> is_valid (sctx (spans w i)) \<longrightarrow>
              dicts w0 h0 ''traceparent'' = Some (PStr (format_traceparent (sctx (spans w i))))
              \<and> extract_context (dicts w0 h0) = Some (sctx (spans w i))"
    by (auto simp: tp carrier_entries_Some extract_context_def parse_format_traceparent)
  have no: "(\<forall>i. current_span w = Some i \<longrightarrow> \<not> is_valid (sctx (spans w i))) \<longrightarrow>
              dicts w0 h0 ''traceparent'' = None \<and> extract_context (dicts w0 h0) = None"
    by (auto simp: tp carrier_entries_def current_span_context_def extract_context_def
        split: option.splits)
  have keys: "dom val = {''application_id'', ''request_id'', ''agent'', ''success'', ''data'',
                    ''error'', ''latency_ms''}"
    by (auto simp: val)
  have vals: "val ''application_id'' = Some (application_id cx)"
    "val ''request_id'' = Some (request_id cx)"
    "val ''agent'' = Some (PStr (agent_value (ag_name ag)))"
    "val ''success'' = Some (PBool (success result))"
    "val ''data'' = Some (data result)"
    "val ''error'' = Some (case error result of None \<Rightarrow> PNone | Some m \<Rightarrow> PStr m)"
    "val ''latency_ms'' = Some (PFloat (latency_ms result))"
    by (simp_all add: val)
  have app: "truthy (application_id cx) \<longrightarrow>
               dicts w0 h0 ''x-application-id'' = Some (application_id cx)"
    "\<not> truthy (application_id cx) \<longrightarrow> dicts w0 h0 ''x-application-id'' = None"
    using xnone by (simp_all add: d map_add_def)
  show ?thesis
    unfolding hv by (intro conjI) (rule keys vals h0 d ex no app)+
qed

theorem prepare_output_message_shape_witness:
  "(\<exists>val h w'. prepare_output_message (returning_agent RISK quiet_sink True PNone) sample_result
                 (sample_context ''APP-1'') tracing_world = ((val, h), w')
     \<and> dom val = {''application_id'', ''request_id'', ''agent'', ''success'', ''data'',
                   ''error'', ''latency_ms''}
     \<and> val ''agent'' = Some (PStr ''agent-risk'')
     \<and> val ''error'' = Some PNone
     \<and> current_span tracing_world = Some 0 \<and> is_valid (sctx (spans tracing_world 0))
     \<and> truthy (application_id (sample_context ''APP-1''))
     \<and> dicts w' h ''x-application-id'' = Some (PStr ''APP-1'')
     \<and> dicts w' h ''traceparent''
         = Some (PStr (format_traceparent \<lparr>trace_id = 1, span_id = 1, trace_flags = 1\<rparr>))
     \<and> extract_context (dicts w' h) = Some \<lparr>trace_id = 1, span_id = 1, trace_flags = 1\<rparr>)
   \<and> (\<exists>val h w'. prepare_output_message (returning_agent RISK quiet_sink True PNone) sample_result
                 (sample_context []) idle_world = ((val, h), w')
     \<and> current_span idle_world = None
     \<and> \<not> truthy (application_id (sample_context []))
     \<and> val ''application_id'' = Some (PStr [])
     \<and> dicts w' h = Map.empty
     \<and> extract_context (dicts w' h) = None)"
proof -
  obtain val h w' where p: "prepare_output_message (returning_agent RISK quiet_sink True PNone)
                 sample_result (sample_context ''APP-1'') tracing_world = ((val, h), w')"
    by (metis prod.exhaust)
  have v: "is_valid (sctx (spans tracing_world 0))"
    by (simp add: tracing_world_span is_valid_def)
  have one: "dom val = {''application_id'', ''request_id'', ''agent'', ''success'', ''data'',
                   ''error'', ''latency_ms''}
     \<and> val ''agent'' = Some (PStr ''agent-risk'')
     \<and> val ''error'' = Some PNone
     \<and> current_span tracing_world = Some 0 \<and> is_valid (sctx (spans tracing_world 0))
     \<and> truthy (application_id (sample_context ''APP-1''))
     \<and> dicts w' h ''x-application-id'' = Some (PStr ''APP-1'')
     \<and> dicts w' h ''traceparent''
         = Some (PStr (format_traceparent \<lparr>trace_id = 1, span_id = 1, trace_flags = 1\<rparr>))
     \<and> extract_context (dicts w' h) = Some \<lparr>trace_id = 1, span_id = 1, trace_flags = 1\<rparr>"
    using prepare_output_message_shape [OF p] v
    by (auto simp: tracing_world_span sample_context_def sample_result_def returning_agent_def)
  obtain val2 h2 w2 where q: "prepare_output_message (returning_agent RISK quiet_sink True PNone)
                 sample_result (sample_context []) idle_world = ((val2, h2), w2)"
    by (metis prod.exhaust)
  have idle: "current_span idle_world = None"
    by (simp add: idle_world_def)
  have ce: "carrier_entries idle_world = Map.empty"
    by (simp add: carrier_entries_def current_span_context_def idle)
  have two: "current_span idle_world = None
     \<and> \<not> truthy (application_id (sample_context []))
     \<and> val2 ''application_id'' = Some (PStr [])
     \<and> dicts w2 h2 = Map.empty
     \<and> extract_context (dicts w2 h2) = None"
    using prepare_output_message_shape [OF q] idle ce
    by (auto simp: sample_context_def)
  have first: "\<exists>val h w'. prepare_output_message (returning_agent RISK quiet_sink True PNone)
                 sample_result (sample_context ''APP-1'') tracing_world = ((val, h), w')
     \<and> dom val = {''application_id'', ''request_id'', ''agent'', ''success'', ''data'',
                   ''error'', ''latency_ms''}
     \<and> val ''agent'' = Some (PStr ''agent-risk'')
     \<and> val ''error'' = Some PNone
     \<and> current_span tracing_world = Some 0 \<and> is_valid (sctx (spans tracing_world 0))
     \<and> truthy (application_id (sample_context ''APP-1''))
     \<and> dicts w' h ''x-application-id'' = Some (PStr ''APP-1'')
     \<and> dicts w' h ''traceparent''
         = Some (PStr (format_traceparent \<lparr>trace_id = 1, span_id = 1, trace_flags = 1\<rparr>))
     \<and> extract_context (dicts w' h) = Some \<lparr>trace_id = 1, span_id = 1, trace_flags = 1\<rparr>"
    by (rule exI [of _ val], rule exI [of _ h], rule exI [of _ w'], rule conjI [OF p one])
  have second: "\<exists>val h w'. prepare_output_message (returning_agent RISK quiet_sink True PNone)
                 sample_result (sample_context []) idle_world = ((val, h), w')
     \<and> current_span idle_world = None
     \<and> \<not> truthy (application_id (sample_context []))
     \<and> val ''application_id'' = Some (PStr [])
     \<and> dicts w' h = Map.empty
     \<and> extract_context (dicts w' h) = None"
    by (rule exI [of _ val2], rule exI [of _ h2], rule exI [of _ w2], rule conjI [OF q two])
  show ?thesis
    by (rule conjI [OF first second])
qed

text \<open>
  The claim as stated fails in two ways. For a context whose application id is the empty
  string, the metadata has no \<^verbatim>\<open>x-application-id\<close> entry, even inside a traced operation.
  And when no span is active at the call, as in a process that is not inside any traced
  operation, the metadata has no \<^verbatim>\<open>traceparent\<close> entry, so that it carries no trace
  context, although the application id is there.
\<close>

theorem prepare_output_message_incomplete_metadata:
  "dicts (snd (prepare_output_message (returning_agent RISK quiet_sink True PNone) sample_result
                 (sample_context []) tracing_world))
         (snd (fst (prepare_output_message (returning_agent RISK quiet_sink True PNone)
                      sample_result (sample_context []) tracing_world)))
         ''x-application-id'' = None
   \<and> dicts (snd (prepare_output_message (returning_agent RISK quiet_sink True PNone) sample_result
                 (sample_context ''APP-1'') idle_world))
         (snd (fst (prepare_output_message (returning_agent RISK quiet_sink True PNone)
                      sample_result (sample_context ''APP-1'') idle_world)))
       = [''x-application-id'' \<mapsto> PStr ''APP-1'']
   \<and> extract_context
        (dicts (snd (prepare_output_message (returning_agent RISK quiet_sink True PNone)
                       sample_result (sample_context ''APP-1'') idle_world))
           (snd (fst (prepare_output_message (returning_agent RISK quiet_sink True PNone)
                        sample_result (sample_context ''APP-1'') idle_world))))
       = None"
proof -
  obtain val h w' where p: "prepare_output_message (returning_agent RISK quiet_sink True PNone)
                 sample_result (sample_context []) tracing_world = ((val, h), w')"
    by (metis prod.exhaust)
  have h: "h = dict_count tracing_world"
    and d: "dicts w' h = carrier_entries tracing_world"
    using p prepare_headers_result(1,2) [of "PStr []" None tracing_world]
    by (auto simp: prepare_output_message_def sample_context_def split: prod.splits)
  have "carrier_entries tracing_world ''x-application-id'' = None"
    by (simp add: carrier_entries_def split: option.splits)
  then have one: "dicts w' h ''x-application-id'' = None"
    using d by simp
  obtain val2 h2 w2 where q: "prepare_output_message (returning_agent RISK quiet_sink True PNone)
                 sample_result (sample_context ''APP-1'') idle_world = ((val2, h2), w2)"
    by (metis prod.exhaust)
  have ce: "carrier_entries idle_world = Map.empty"
    by (simp add: carrier_entries_def current_span_context_def idle_world_def)
  have d2: "dicts w2 h2 = [''x-application-id'' \<mapsto> PStr ''APP-1'']"
    using q prepare_headers_result(1,2) [of "PStr ''APP-1''" None idle_world] ce
    by (auto simp: prepare_output_message_def sample_context_def split: prod.splits)
  have "extract_context (dicts w2 h2) = None"
    by (simp add: d2 extract_context_def)
  then show ?thesis
    using p q one d2 by simp
qed

section \<open>InstrumentedAgent.execute\<close>

lemma level_method_sink:
  assumes "kwargs ''self'' = None" "kwargs ''event'' = None" "kwargs ''level'' = None"
  shows "level_method level snk event kwargs w =
           (case snk level event kwargs of
              Inl e \<Rightarrow> (Inl e, w)
            | Inr lines \<Rightarrow> (Inr (), w\<lparr>log_output := log_output w @ lines\<rparr>))"
  using assms by (simp add: level_method_def logger_log_def multiple_values_def)

lemma operation_start_sink:
  "operation_start snk ''execute'' [''application_id'' \<mapsto> a] w =
     (case snk ''info'' ''operation_start:execute'' [''application_id'' \<mapsto> a] of
        Inl e \<Rightarrow> (Inl e, w\<lparr>clock := (\<lambda>n. clock w (Suc n)),
                             operation_starts := (operation_starts w)(''execute'' \<mapsto> clock w 0)\<rparr>)
      | Inr lines \<Rightarrow>
          (Inr (), w\<lparr>clock := (\<lambda>n. clock w (Suc n)),
                      operation_starts := (operation_starts w)(''execute'' \<mapsto> clock w 0),
                      log_output := log_output w @ lines\<rparr>))"
  by (simp add: operation_start_def multiple_values_def time_time_def logger_info_def
        level_method_sink split: sum.splits)

lemma execute_except_sink:
  "execute_except ag cx start_time e w =
     (case logger ag ''error'' ''execute_failed''
             [''application_id'' \<mapsto> application_id cx, ''error'' \<mapsto> PStr (message e)] of
        Inl e' \<Rightarrow> (Inl e', w)
      | Inr lines \<Rightarrow>
          (Inr \<lparr>success = False, data = PNone, error = Some (message e),
                latency_ms = (clock w 0 - start_time) * 1000, tokens_used = 0\<rparr>,
           snd (time_time (record_request False (application_id cx)
                             (w\<lparr>log_output := log_output w @ lines\<rparr>)))))"
  by (simp add: execute_except_def then_do_def logger_error_def level_method_sink
        record_request_def request_counter_add_def current_span_set_attributes_def
        set_attributes_def time_time_def Let_def split: option.splits sum.splits)

lemma execute_eq:
  assumes "(case ctx of None \<Rightarrow> create_context inp w | Some c \<Rightarrow> (c, w)) = (cx, w1)"
      and "time_time w1 = (start_time, w2)"
      and "trace_enter (agent_value (ag_name ag) @ ''.execute'') INTERNAL
             (Some [''application.id'' \<mapsto> application_id cx, ''request.id'' \<mapsto> request_id cx])
             None w2 = (t0, sp, saved, w3)"
      and "operation_start (logger ag) ''execute''
             [''application_id'' \<mapsto> application_id cx] w3 = (r0, w4)"
      and "try_except (execute_try ag inp cx start_time) (execute_except ag cx start_time) w4
             = (r1, w6)"
  shows "execute ag inp ctx w =
           (case r0 of
              Inl e \<Rightarrow> (Inl e, trace_exit (agent_value (ag_name ag) @ ''.execute'') t0 sp saved
                                   (Inl e :: pyexc + AgentResult) w4)
            | Inr u \<Rightarrow> (r1, trace_exit (agent_value (ag_name ag) @ ''.execute'') t0 sp saved r1 w6))"
  using assms
  by (simp add: execute_def trace_operation_def then_do_def split: sum.splits)


lemma validate_traced:
  assumes "trace_enter ''validate_input'' INTERNAL None None w4 = (tv, sv, savedv, wa)"
      and "validate_input ag inp wa = (rv, wb)"
  shows "trace_operation ''validate_input'' INTERNAL None None (\<lambda>span. validate_step ag inp) w4 =
           (let r = (case rv of
                       Inl e \<Rightarrow> Inl e
                     | Inr valid \<Rightarrow>
                         if valid then Inr () else Inl (ValueError ''Input validation failed''))
            in (r, trace_exit ''validate_input'' tv sv savedv r wb))"
  using assms
  by (auto simp: trace_operation_def validate_step_def then_do_def Let_def split: sum.splits)

lemma execute_try_eq:
  assumes "trace_operation ''validate_input'' INTERNAL None None
             (\<lambda>span. validate_step ag inp) w4 = (rv, wv)"
  shows "execute_try ag inp cx st w4 =
           (case rv of
              Inl e \<Rightarrow> (Inl e, wv)
            | Inr u \<Rightarrow>
                (case execute_core ag cx inp wv of
                   (Inl e, wc) \<Rightarrow> (Inl e, wc)
                 | (Inr p, wc) \<Rightarrow>
                     (case operation_end (logger ag) ''execute'' True
                             [''application_id'' \<mapsto> application_id cx] (snd (time_time wc)) of
                        (Inl e, we) \<Rightarrow> (Inl e, we)
                      | (Inr u, we) \<Rightarrow>
                          (case serialize_result p of
                             Inl e \<Rightarrow> (Inl e, record_request True (application_id cx) we)
                           | Inr d \<Rightarrow>
                               (Inr \<lparr>success = True, data = d, error = None,
                                     latency_ms = (clock wc 0 - st) * 1000, tokens_used = 0\<rparr>,
                                record_request True (application_id cx) we)))))"
  using assms
  by (auto simp: execute_try_def then_do_def time_time_def Let_def split: sum.splits prod.splits)

text \<open>
  Claim C2 on the code. For the input \<^verbatim>\<open>{"application_id": "APP-1"}\<close>, a validator that
  always returns \<^verbatim>\<open>True\<close> and core logic that raises an exception with the text \<open>m\<close>,
  \<^verbatim>\<open>execute\<close> returns an envelope with \<^verbatim>\<open>success\<close> false and \<^verbatim>\<open>error\<close> \<open>m\<close>, as
  claimed. But the error counter is left exactly as it was: the handler of \<^verbatim>\<open>execute\<close>
  catches the exception inside the span of the call, so no \<^verbatim>\<open>trace_operation\<close> ever
  sees it, and the core logic runs in no traced operation of its own. Only the request
  counter gets a recording, tagged \<^verbatim>\<open>success=false\<close>.
\<close>

theorem core_failure_leaves_error_counter:
  "\<exists>res w'. execute (raising_agent nm quiet_sink (PyExc cls True m))
               [''application_id'' \<mapsto> PStr ''APP-1''] None w = (Inr res, w')
     \<and> success res = False \<and> error res = Some m
     \<and> error_counter (tel w') = error_counter (tel w)
     \<and> request_counter (tel w') =
         request_counter (tel w)
           @ [(1, [(''success'', ''false''), (''agent'', agent_value (agent_name (tel w)))])]"
proof -
  let ?e = "PyExc cls True m"
  let ?ag = "raising_agent nm quiet_sink ?e"
  let ?inp = "[''application_id'' \<mapsto> PStr ''APP-1'']"
  let ?nm = "agent_value (ag_name ?ag) @ ''.execute''"
  obtain cx w1 where c: "create_context ?inp w = (cx, w1)" by fastforce
  have t1: "tel w1 = tel w" using tel_create_context [of ?inp w] c by simp
  obtain st w2 where s: "time_time w1 = (st, w2)" by fastforce
  have t2: "tel w2 = tel w1" using s by (auto simp: time_time_def)
  obtain t0 sp saved w3 where en: "trace_enter ?nm INTERNAL
      (Some [''application.id'' \<mapsto> application_id cx, ''request.id'' \<mapsto> request_id cx])
      None w2 = (t0, sp, saved, w3)"
    by (metis prod_cases4)
  have t3: "tel w3 = (tel w2)\<lparr>active_operations := active_operations (tel w2) + 1\<rparr>"
    by (rule tel_trace_enter [OF en])
  obtain r0 w4 where os: "operation_start (logger ?ag) ''execute''
      [''application_id'' \<mapsto> application_id cx] w3 = (r0, w4)" by fastforce
  have r0: "r0 = Inr ()"
    using os by (auto simp: operation_start_sink raising_agent_def quiet_sink_def)
  have t4: "tel w4 = tel w3" by (rule tel_operation_start [OF os])
  obtain tv sv savedv wa where env: "trace_enter ''validate_input'' INTERNAL None None w4
      = (tv, sv, savedv, wa)"
    by (metis prod_cases4)
  have ta: "tel wa = (tel w4)\<lparr>active_operations := active_operations (tel w4) + 1\<rparr>"
    by (rule tel_trace_enter [OF env])
  have vi: "validate_input ?ag ?inp wa = (Inr True, wa)"
    by (simp add: raising_agent_def)
  let ?wv = "trace_exit ''validate_input'' tv sv savedv (Inr () :: pyexc + unit) wa"
  have vt: "trace_operation ''validate_input'' INTERNAL None None
              (\<lambda>span. validate_step ?ag ?inp) w4 = (Inr (), ?wv)"
    using validate_traced [OF env vi] by (simp add: Let_def)
  have core: "execute_core ?ag cx ?inp ?wv = (Inl ?e, ?wv)"
    by (simp add: raising_agent_def)
  have tr: "execute_try ?ag ?inp cx st w4 = (Inl ?e, ?wv)"
    using execute_try_eq [OF vt, of cx st] core by simp
  obtain res w6 where h: "execute_except ?ag cx st ?e ?wv = (Inr res, w6)"
    and res: "success res = False" "error res = Some m"
    by (auto simp: execute_except_sink raising_agent_def quiet_sink_def)
  have g: "try_except (execute_try ?ag ?inp cx st) (execute_except ?ag cx st) w4 = (Inr res, w6)"
    using tr h by (simp add: try_except_def)
  have ex: "execute ?ag ?inp None w = (Inr res, trace_exit ?nm t0 sp saved (Inr res) w6)"
  proof -
    have c': "(case None of None \<Rightarrow> create_context ?inp w | Some c \<Rightarrow> (c, w)) = (cx, w1)"
      using c by simp
    show ?thesis
      using execute_eq [OF c' s en os g] r0 by simp
  qed
  have t6: "tel w6 = (tel ?wv)\<lparr>request_counter := request_counter (tel ?wv) @
               [(1, [(''success'', ''false''), (''agent'', agent_value (agent_name (tel ?wv)))])]\<rparr>"
    by (rule tel_execute_except [OF h])
  have ec: "error_counter (tel (trace_exit ?nm t0 sp saved (Inr res) w6)) = error_counter (tel w)"
    by (simp add: tel_trace_exit_value t6 ta t4 t3 t2 t1)
  have rc: "request_counter (tel (trace_exit ?nm t0 sp saved (Inr res) w6)) =
         request_counter (tel w)
           @ [(1, [(''success'', ''false''), (''agent'', agent_value (agent_name (tel w)))])]"
    by (simp add: tel_trace_exit_value t6 ta t4 t3 t2 t1)
  show ?thesis
    using ex res ec rc by simp
qed

lemma clock_trace_enter:
  assumes "trace_enter nm k a c w = (t0, sp, saved, w1)"
  shows "t0 = clock w 0 \<and> clock w1 = (\<lambda>n. clock w (Suc n))"
  using assms
  by (auto simp: trace_enter_def active_operations_add_def time_time_def
        start_as_current_span_def Let_def split: option.splits)

lemma clock_trace_exit: "clock (trace_exit nm t0 sp saved r w) = (\<lambda>n. clock w (Suc n))"
  by (simp add: trace_exit_def trace_resume_def active_operations_add_def time_time_def end_span_def
        latency_histogram_record_def error_counter_add_def record_exception_def set_status_def
        Let_def split: sum.splits)


lemma execute_prefix:
  obtains cx w1 st w2 t0 sp saved w3 r0 w4 where
    "(case ctx of None \<Rightarrow> create_context inp w | Some c \<Rightarrow> (c, w)) = (cx, w1)"
    "time_time w1 = (st, w2)"
    "trace_enter (agent_value (ag_name ag) @ ''.execute'') INTERNAL
       (Some [''application.id'' \<mapsto> application_id cx, ''request.id'' \<mapsto> request_id cx])
       None w2 = (t0, sp, saved, w3)"
    "operation_start (logger ag) ''execute'' [''application_id'' \<mapsto> application_id cx] w3
       = (r0, w4)"
    "tel w4 = (tel w)\<lparr>active_operations := active_operations (tel w) + 1\<rparr>"
    "st = clock w1 0" "clock w4 = (\<lambda>n. clock w1 (Suc (Suc (Suc n))))"
proof -
  obtain cx w1 where c: "(case ctx of None \<Rightarrow> create_context inp w | Some c \<Rightarrow> (c, w)) = (cx, w1)"
    by fastforce
  have t1: "tel w1 = tel w"
    using c tel_create_context [of inp w] by (cases ctx) auto
  obtain st w2 where s: "time_time w1 = (st, w2)" by fastforce
  have t2: "tel w2 = tel w1" "st = clock w1 0" "clock w2 = (\<lambda>n. clock w1 (Suc n))"
    using s by (auto simp: time_time_def)
  obtain t0 sp saved w3 where en: "trace_enter (agent_value (ag_name ag) @ ''.execute'') INTERNAL
       (Some [''application.id'' \<mapsto> application_id cx, ''request.id'' \<mapsto> request_id cx])
       None w2 = (t0, sp, saved, w3)"
    by (metis prod_cases4)
  have t3: "tel w3 = (tel w2)\<lparr>active_operations := active_operations (tel w2) + 1\<rparr>"
    by (rule tel_trace_enter [OF en])
  have c3: "clock w3 = (\<lambda>n. clock w2 (Suc n))"
    using clock_trace_enter [OF en] by simp
  obtain r0 w4 where os: "operation_start (logger ag) ''execute''
       [''application_id'' \<mapsto> application_id cx] w3 = (r0, w4)"
    by fastforce
  have t4: "tel w4 = tel w3" by (rule tel_operation_start [OF os])
  have c4: "clock w4 = (\<lambda>n. clock w3 (Suc n))"
    using os by (auto simp: operation_start_sink split: sum.splits)
  show ?thesis
    using that [OF c s en os] t1 t2 t3 t4 c3 c4 by simp
qed

lemma validation_stage:
  assumes "\<forall>w. validate_input ag inp w = (Inr valid, w)"
  obtains wv where
    "trace_operation ''validate_input'' INTERNAL None None (\<lambda>span. validate_step ag inp) w4 =
       (if valid then Inr () else Inl (ValueError ''Input validation failed''), wv)"
    "clock wv = (\<lambda>n. clock w4 (Suc (Suc n)))"
    "tel wv = (tel w4)\<lparr>
        error_counter := error_counter (tel w4)
          @ (if valid then [] else [(1, [(''operation'', ''validate_input'')])]),
        latency_histogram := latency_histogram (tel w4) @
          [((clock w4 (Suc 0) - clock w4 0) * 1000,
            [(''operation'', ''validate_input''), (''agent'', agent_value (agent_name (tel w4)))])]\<rparr>"
proof -
  obtain tv sv savedv wa where env: "trace_enter ''validate_input'' INTERNAL None None w4
      = (tv, sv, savedv, wa)"
    by (metis prod_cases4)
  have ta: "tel wa = (tel w4)\<lparr>active_operations := active_operations (tel w4) + 1\<rparr>"
    by (rule tel_trace_enter [OF env])
  have ca: "tv = clock w4 0" "clock wa = (\<lambda>n. clock w4 (Suc n))"
    using clock_trace_enter [OF env] by simp_all
  have vi: "validate_input ag inp wa = (Inr valid, wa)"
    using assms by simp
  let ?r = "(if valid then Inr () else Inl (ValueError ''Input validation failed'')) :: pyexc + unit"
  let ?wv = "trace_exit ''validate_input'' tv sv savedv ?r wa"
  have vt: "trace_operation ''validate_input'' INTERNAL None None
              (\<lambda>span. validate_step ag inp) w4 = (?r, ?wv)"
    using validate_traced [OF env vi] by (simp add: Let_def)
  have cv: "clock ?wv = (\<lambda>n. clock w4 (Suc (Suc n)))"
    by (simp add: clock_trace_exit ca)
  have tv: "tel ?wv = (tel w4)\<lparr>
        error_counter := error_counter (tel w4)
          @ (if valid then [] else [(1, [(''operation'', ''validate_input'')])]),
        latency_histogram := latency_histogram (tel w4) @
          [((clock w4 (Suc 0) - clock w4 0) * 1000,
            [(''operation'', ''validate_input''), (''agent'', agent_value (agent_name (tel w4)))])]\<rparr>"
    by (cases valid)
       (simp_all add: tel_trace_exit_value tel_trace_exit_Exception ValueError_def ta ca)
  show ?thesis
    using that [OF vt cv tv] .
qed

text \<open>
  The neighbouring path does count: a validation failure is raised inside the traced
  operation \<^verbatim>\<open>validate_input\<close>, which adds 1 to the error counter before the handler of
  \<^verbatim>\<open>execute\<close> contains it.
\<close>

lemma validation_failure_counts_error:
  "\<exists>res w'. execute (returning_agent nm quiet_sink False p) inp None w = (Inr res, w')
     \<and> success res = False \<and> error res = Some ''Input validation failed''
     \<and> error_counter (tel w') = error_counter (tel w) @ [(1, [(''operation'', ''validate_input'')])]"
proof -
  let ?ag = "returning_agent nm quiet_sink False p"
  let ?e = "ValueError ''Input validation failed''"
  obtain cx w1 st w2 t0 sp saved w3 r0 w4 where
    c: "(case None of None \<Rightarrow> create_context inp w | Some c \<Rightarrow> (c, w)) = (cx, w1)"
    and s: "time_time w1 = (st, w2)"
    and en: "trace_enter (agent_value (ag_name ?ag) @ ''.execute'') INTERNAL
       (Some [''application.id'' \<mapsto> application_id cx, ''request.id'' \<mapsto> request_id cx])
       None w2 = (t0, sp, saved, w3)"
    and os: "operation_start (logger ?ag) ''execute'' [''application_id'' \<mapsto> application_id cx] w3
       = (r0, w4)"
    and t4: "tel w4 = (tel w)\<lparr>active_operations := active_operations (tel w) + 1\<rparr>"
    by (rule execute_prefix [where ctx = None and inp = inp and w = w and ag = ?ag])
  have r0: "r0 = Inr ()"
    using os by (auto simp: operation_start_sink returning_agent_def quiet_sink_def)
  have pure: "\<forall>w. validate_input ?ag inp w = (Inr False, w)"
    by (simp add: returning_agent_def)
  obtain wv where
    vt: "trace_operation ''validate_input'' INTERNAL None None (\<lambda>span. validate_step ?ag inp) w4 =
       (if False then Inr () else Inl ?e, wv)"
    and tv: "tel wv = (tel w4)\<lparr>
        error_counter := error_counter (tel w4)
          @ (if False then [] else [(1, [(''operation'', ''validate_input'')])]),
        latency_histogram := latency_histogram (tel w4) @
          [((clock w4 (Suc 0) - clock w4 0) * 1000,
            [(''operation'', ''validate_input''), (''agent'', agent_value (agent_name (tel w4)))])]\<rparr>"
    by (rule validation_stage [OF pure, of w4])
  have tr: "execute_try ?ag inp cx st w4 = (Inl ?e, wv)"
    using execute_try_eq [OF vt, of cx st] by simp
  obtain res w6 where h: "execute_except ?ag cx st ?e wv = (Inr res, w6)"
    and res: "success res = False" "error res = Some ''Input validation failed''"
    by (auto simp: execute_except_sink returning_agent_def quiet_sink_def ValueError_def)
  have g: "try_except (execute_try ?ag inp cx st) (execute_except ?ag cx st) w4 = (Inr res, w6)"
    using tr h by (simp add: try_except_def ValueError_def)
  have ex: "execute ?ag inp None w =
              (Inr res, trace_exit (agent_value (ag_name ?ag) @ ''.execute'') t0 sp saved (Inr res) w6)"
    using execute_eq [OF c s en os g] r0 by simp
  have t6: "tel w6 = (tel wv)\<lparr>request_counter := request_counter (tel wv) @
               [(1, [(''success'', ''false''), (''agent'', agent_value (agent_name (tel wv)))])]\<rparr>"
    by (rule tel_execute_except [OF h])
  have "error_counter (tel (trace_exit (agent_value (ag_name ?ag) @ ''.execute'') t0 sp saved
                              (Inr res) w6))
          = error_counter (tel w) @ [(1, [(''operation'', ''validate_input'')])]"
    by (simp add: tel_trace_exit_value t6 tv t4)
  then show ?thesis
    using ex res by simp
qed








end
